theory Spec2Isabelle
  imports Complex_Main
begin

section \<open>Values, exceptions and outcomes\<close>

text \<open>
  Numbers are real numbers. The program computes in IEEE binary64: the rounding of
  every product and sum is modelled in the coordinate conversions (\<open>binary64\<close>
  below), where a statement depends on it. The array arithmetic of the interpolator,
  of \<open>normalize\<close> and of the losses is over exact numbers, and the values of an
  image are taken as stored. Overflow and NaN are outside the model: where the program
  tests for a non-finite value the test is modelled explicitly (see \<open>np_divide\<close>),
  and a call whose result would hold a NaN ends in \<open>NotANumber\<close>, which is no
  Python exception but the mark of that limit.

  A Python exception is a value of \<open>exn\<close>. \<open>UnboundLocalError\<close> is the subclass
  of \<open>NameError\<close> that Python raises when a local variable is read before it was
  assigned. \<open>RepoError n\<close> is an instance of the exception class \<open>n\<close> that the
  repository declares in \<open>src/data/exceptions.py\<close>.
\<close>

datatype exn =
    NameError string
  | UnboundLocalError string
  | FileNotFoundError string
  | LinAlgError
  | ValueError
  | IndexError
  | KeyError string
  | ZeroDivisionError
  | RepoError string
  | NotANumber string

fun is_NameError :: "exn \<Rightarrow> bool" where
  "is_NameError (NameError n) = True"
| "is_NameError (UnboundLocalError n) = True"
| "is_NameError e = False"

datatype 'a outcome = Returns 'a | Raises exn

fun and_then :: "'a outcome \<Rightarrow> ('a \<Rightarrow> 'b outcome) \<Rightarrow> 'b outcome" where
  "and_then (Returns x) f = f x"
| "and_then (Raises e) f = Raises e"

fun returns :: "'a outcome \<Rightarrow> bool" where
  "returns (Returns x) = True"
| "returns (Raises e) = False"

type_synonym vec = "real list"

subsection \<open>Rounding to binary64\<close>

text \<open>
  Round to nearest, ties to even, on a significand of 53 bits: \<open>binary64 x\<close> is the
  floating-point number an operation stores when its exact result is \<open>x\<close>. The
  exponent range is not bounded (no overflow, no subnormal numbers).
\<close>

definition round_half_even :: "real \<Rightarrow> int" where
  "round_half_even x =
     (let f = \<lfloor>x\<rfloor>; r = x - real_of_int f
      in if r < 1 / 2 then f else if 1 / 2 < r then f + 1
         else if even f then f else f + 1)"

definition binary64 :: "real \<Rightarrow> real" where
  "binary64 x =
     (if x = 0 then 0
      else let e = \<lfloor>log 2 \<bar>x\<bar>\<rfloor>; ulp = 2 powr (real_of_int e - 52)
           in real_of_int (round_half_even (x / ulp)) * ulp)"

section \<open>Loss functions of \<open>src/nn_helper.py\<close>\<close>

text \<open>
  A tensor is modelled along its last axis, the one every reduction of the two losses
  runs over (\<open>axis=-1\<close>): a \<open>vec\<close>. The leading (batch) axes are mapped over
  pointwise by the backend. Elementwise operators broadcast as numpy does: equal
  lengths combine index by index, a length-one operand is stretched, and any other
  pair of lengths is an error.
\<close>

definition broadcast :: "(real \<Rightarrow> real \<Rightarrow> real) \<Rightarrow> vec \<Rightarrow> vec \<Rightarrow> vec outcome" where
  "broadcast f xs ys =
     (if length xs = length ys then Returns (map2 f xs ys)
      else if length xs = 1 then Returns (map (f (hd xs)) ys)
      else if length ys = 1 then Returns (map (\<lambda>x. f x (hd ys)) xs)
      else Raises ValueError)"

definition t_neg :: "vec \<Rightarrow> vec" where
  "t_neg xs = map uminus xs"

definition K_square :: "vec \<Rightarrow> vec" where
  "K_square xs = map (\<lambda>x. x * x) xs"

definition K_sum :: "vec \<Rightarrow> real" where
  "K_sum xs = sum_list xs"

text \<open>\<open>K.mean\<close> of an empty axis is NaN in the backend; here it is \<open>0 / 0 = 0\<close>.\<close>

definition K_mean :: "vec \<Rightarrow> real" where
  "K_mean xs = sum_list xs / real (length xs)"

text \<open>
  \<open>K.l2_normalize(x, axis=-1)\<close> is the backend's
  \<open>x * rsqrt(maximum(sum(square(x)), epsilon))\<close> with \<open>epsilon = 1e-12\<close>.
\<close>

definition l2_epsilon :: real where
  "l2_epsilon = 1 / 10 ^ 12"

definition K_l2_normalize :: "vec \<Rightarrow> vec" where
  "K_l2_normalize xs = map (\<lambda>x. x / sqrt (max (K_sum (K_square xs)) l2_epsilon)) xs"

definition squared_cosine_proximity_2 :: "vec \<Rightarrow> vec \<Rightarrow> real outcome" where
  "squared_cosine_proximity_2 y_true y_pred =
     (let y_true' = K_l2_normalize y_true;
          y_pred' = K_l2_normalize y_pred
      in and_then (broadcast (*) y_true' y_pred')
           (\<lambda>p. Returns (- ((K_sum p)\<^sup>2))))"

definition mse_directionInvariant :: "vec \<Rightarrow> vec \<Rightarrow> real outcome" where
  "mse_directionInvariant y_true y_pred =
     and_then (broadcast (-) y_pred y_true)
       (\<lambda>d1. and_then (broadcast (-) (map (\<lambda>x. - 1 * x) y_pred) y_true)
          (\<lambda>d2. Returns (min (K_mean (K_square d1)) (K_mean (K_square d2)))))"

section \<open>The data container of \<open>src/data/__init__.py\<close>\<close>

subsection \<open>Names the module binds\<close>

text \<open>
  The names bound at the top level of \<open>src/data/__init__.py\<close>: one per import and
  per class statement. Line 32 is \<open>import src.data.exceptions\<close>, which binds the
  package name \<open>src\<close> and, as an attribute of the package being initialised, the
  submodule name \<open>exceptions\<close>; it binds none of the classes of that submodule.
  \<open>raise C(...)\<close> first evaluates the name \<open>C\<close>: an unbound one raises
  \<open>NameError\<close> before any instance of \<open>C\<close> exists.
\<close>

definition module_names :: "string list" where
  "module_names =
     [''os'', ''warnings'', ''SimpleNamespace'', ''torch'', ''gradient_table'',
      ''read_bvals_bvecs'', ''localpca'', ''pca_noise_estimate'', ''reslice'',
      ''median_otsu'', ''RegularGridInterpolator'', ''interpolate_vector_3d'',
      ''interpolate_scalar_3d'', ''dti'', ''np'', ''nb'', ''apply_affine'', ''Config'',
      ''src'', ''exceptions'', ''RawData'', ''MovableData'', ''DataContainer'',
      ''HCPDataContainer'', ''ISMRMDataContainer'']"

definition raise_class :: "string \<Rightarrow> exn" where
  "raise_class n = (if n \<in> set module_names then RepoError n else NameError n)"

subsection \<open>Arrays, volumes and affines\<close>

type_synonym vec3 = "real \<times> real \<times> real"

type_synonym mat3 = "vec3 \<times> vec3 \<times> vec3"

text \<open>
  The affine of a loaded image is a 4x4 matrix whose last row is \<open>(0, 0, 0, 1)\<close>:
  \<open>rzs\<close> is its upper left 3x3 block \<open>aff[:-1, :-1]\<close> (given by rows) and
  \<open>trans\<close> its last column \<open>aff[:-1, -1]\<close>.
\<close>

record affine =
  rzs :: mat3
  trans :: vec3

text \<open>
  An array of points of shape \<open>(*lead, 3)\<close>: \<open>lead\<close> is \<open>shape[:-1]\<close> and
  \<open>coords\<close> the array reshaped to \<open>(-1, 3)\<close>. An array of signals of shape
  \<open>(*s_lead, s_last)\<close> likewise.
\<close>

record points =
  lead :: "nat list"
  coords :: "vec3 list"

record signals =
  s_lead :: "nat list"
  s_last :: nat
  s_rows :: "vec list"

text \<open>
  A 4-D array of shape \<open>(dim_x, dim_y, dim_z, channels)\<close>: \<open>voxels\<close> lists the
  last axis of every grid position in C order, position \<open>(i, j, k)\<close> at index
  \<open>(i * dim_y + j) * dim_z + k\<close>.
\<close>

record volume =
  dim_x :: nat
  dim_y :: nat
  dim_z :: nat
  channels :: nat
  voxels :: "vec list"

record rawdata =
  bvals :: vec
  bvecs :: "vec3 list"
  img :: "volume \<times> affine"
  t1 :: "real list"
  gtab :: "vec \<times> vec3 list"
  dwi :: volume
  aff :: affine
  fa :: "real list option"
  binarymask :: "real list"
  b0 :: "real list"

record options =
  denoised :: bool
  cropped :: bool
  normalized :: bool
  b0_threshold :: real
  crop_b :: "real option"
  crop_max_deviation :: "real option"

text \<open>
  The attributes of a \<open>DataContainer\<close>: \<open>opts\<close> is \<open>self.options\<close>,
  \<open>id_str\<close> is \<open>self.id\<close>, and \<open>interpolator\<close> is the
  \<open>RegularGridInterpolator\<close> object: the array it was built from (its grid is
  \<open>arange\<close> of the three spatial sizes).
\<close>

record container =
  opts :: options
  path :: string
  data :: rawdata
  id_str :: string
  interpolator :: volume

text \<open>
  What the methods read from outside the file: the configuration (\<open>src/config.py\<close>)
  and the library calls. \<open>str_float\<close> is Python's formatting of a number inside the
  identifier string; the results of \<open>localpca\<close> and \<open>median_otsu\<close> are only
  stored. \<open>np_linalg_inv\<close> is \<open>np.linalg.inv\<close> on an affine: LAPACK returns a
  rounded inverse, whose last bits depend on the build, and raises \<open>LinAlgError\<close>
  on a singular matrix. \<open>gradient_table\<close> is dipy's, which raises
  \<open>ValueError\<close> on the arrays it refuses.
\<close>

record env =
  cfg_denoise :: bool
  cfg_b0_threshold :: real
  cfg_cropB_Value :: real
  cfg_cropMaxDeviation :: real
  str_float :: "real \<Rightarrow> string"
  lib_localpca :: "volume \<Rightarrow> volume"
  lib_median_otsu :: "volume \<Rightarrow> real list"
  np_linalg_inv :: "affine \<Rightarrow> affine outcome"
  gradient_table :: "vec \<Rightarrow> vec3 list \<Rightarrow> (vec \<times> vec3 list) outcome"

subsection \<open>Coordinate conversion\<close>

text \<open>The operations on vectors and matrices over exact numbers.\<close>

fun dot3 :: "vec3 \<Rightarrow> vec3 \<Rightarrow> real" where
  "dot3 (a, b, c) (x, y, z) = a * x + b * y + c * z"

fun add3 :: "vec3 \<Rightarrow> vec3 \<Rightarrow> vec3" where
  "add3 (a, b, c) (x, y, z) = (a + x, b + y, c + z)"

fun mat_vec :: "mat3 \<Rightarrow> vec3 \<Rightarrow> vec3" where
  "mat_vec (r1, r2, r3) p = (dot3 r1 p, dot3 r2 p, dot3 r3 p)"

text \<open>
  The same in floating point: every product and every sum is rounded, the three
  products of a row being summed from left to right.
\<close>

fun fl_dot3 :: "vec3 \<Rightarrow> vec3 \<Rightarrow> real" where
  "fl_dot3 (a, b, c) (x, y, z) =
     binary64 (binary64 (binary64 (a * x) + binary64 (b * y)) + binary64 (c * z))"

fun fl_add3 :: "vec3 \<Rightarrow> vec3 \<Rightarrow> vec3" where
  "fl_add3 (a, b, c) (x, y, z) = (binary64 (a + x), binary64 (b + y), binary64 (c + z))"

fun fl_mat_vec :: "mat3 \<Rightarrow> vec3 \<Rightarrow> vec3" where
  "fl_mat_vec (r1, r2, r3) p = (fl_dot3 r1 p, fl_dot3 r2 p, fl_dot3 r3 p)"

text \<open>
  \<open>nibabel.affines.apply_affine(aff, pts)\<close>: the points are reshaped to
  \<open>(-1, 3)\<close>, mapped to \<open>dot(pts, rzs.T) + trans\<close> in floating point and reshaped
  back.
\<close>

definition apply_affine :: "affine \<Rightarrow> points \<Rightarrow> points" where
  "apply_affine a pts =
     pts\<lparr>coords := map (\<lambda>p. fl_add3 (fl_mat_vec (rzs a) p) (trans a)) (coords pts)\<rparr>"



fun det3 :: "mat3 \<Rightarrow> real" where
  "det3 ((a, b, c), (d, e, f), (g, h, i)) =
     a * (e * i - f * h) - b * (d * i - f * g) + c * (d * h - e * g)"

fun adjugate3 :: "mat3 \<Rightarrow> mat3" where
  "adjugate3 ((a, b, c), (d, e, f), (g, h, i)) =
     ((e * i - f * h, c * h - b * i, b * f - c * e),
      (f * g - d * i, a * i - c * g, c * d - a * f),
      (d * h - e * g, b * g - a * h, a * e - b * d))"

fun scale3 :: "real \<Rightarrow> vec3 \<Rightarrow> vec3" where
  "scale3 s (x, y, z) = (s * x, s * y, s * z)"

fun mat_scale :: "real \<Rightarrow> mat3 \<Rightarrow> mat3" where
  "mat_scale s (r1, r2, r3) = (scale3 s r1, scale3 s r2, scale3 s r3)"

text \<open>
  The inverse of an affine over exact numbers: the inverse of \<open>[[R, t], [0, 1]]\<close> is
  \<open>[[R\<^sup>-\<^sup>1, - R\<^sup>-\<^sup>1 t], [0, 1]]\<close>, and a singular matrix has none.
\<close>

definition inverse_affine :: "affine \<Rightarrow> affine option" where
  "inverse_affine a =
     (if det3 (rzs a) = 0 then None
      else let r = mat_scale (1 / det3 (rzs a)) (adjugate3 (rzs a))
           in Some \<lparr>rzs = r, trans = scale3 (- 1) (mat_vec r (trans a))\<rparr>)"

text \<open>
  Every method takes the container and returns its outcome together with the
  container as the call leaves it.
\<close>

definition to_ijk :: "env \<Rightarrow> container \<Rightarrow> points \<Rightarrow> points outcome \<times> container" where
  "to_ijk E self pts =
     (case np_linalg_inv E (aff (data self)) of
        Raises e \<Rightarrow> (Raises e, self)
      | Returns a \<Rightarrow> (Returns (apply_affine a pts), self))"



subsection \<open>Interpolation\<close>

text \<open>
  \<open>scipy.interpolate.RegularGridInterpolator(points, values)\<close> with its defaults
  (\<open>method="linear"\<close>, \<open>bounds_error=True\<close>) on the grid
  \<open>(arange(dim_x), arange(dim_y), arange(dim_z))\<close>. Building the object stores the
  array. Calling it on an \<open>(N, 3)\<close> array first checks, axis by axis, every
  coordinate against \<open>grid[0]\<close> and \<open>grid[-1]\<close> and raises \<open>ValueError\<close> if one
  lies outside; on an axis without a sample \<open>grid[0]\<close> is an \<open>IndexError\<close>. It
  then finds for each point and axis the cell index (\<open>searchsorted(grid, x) - 1\<close>,
  set to \<open>0\<close> if below and to \<open>n - 2\<close> if above) and the distance from the cell's
  lower edge in units of the cell width, and sums the values at the eight corners
  \<open>itertools.product([i, i + 1], [j, j + 1], [k, k + 1])\<close>, each weighted by the
  product over the axes of \<open>1 - y\<close> (lower corner) or \<open>y\<close> (upper corner).

  On an axis with a single sample the cell index is \<open>-1\<close>: Python's indexing reads
  a negative index from the end, so both corners are the one sample, the cell width
  is \<open>0\<close> and the distance is set to \<open>0\<close> (the library guards that division).
\<close>

definition RegularGridInterpolator :: "volume \<Rightarrow> volume" where
  "RegularGridInterpolator vals = vals"

definition in_bounds :: "nat \<Rightarrow> real \<Rightarrow> bool" where
  "in_bounds n x = (0 \<le> x \<and> x \<le> real n - 1)"

definition point_in_bounds :: "volume \<Rightarrow> vec3 \<Rightarrow> bool" where
  "point_in_bounds v p =
     (case p of (x, y, z) \<Rightarrow>
        in_bounds (dim_x v) x \<and> in_bounds (dim_y v) y \<and> in_bounds (dim_z v) z)"

text \<open>The bounds check of one axis, on the coordinates of all points along it.\<close>

definition axis_check :: "nat \<Rightarrow> real list \<Rightarrow> unit outcome" where
  "axis_check n xs =
     (if n = 0 then Raises IndexError
      else if list_all (in_bounds n) xs then Returns ()
      else Raises ValueError)"

definition check_bounds :: "volume \<Rightarrow> vec3 list \<Rightarrow> unit outcome" where
  "check_bounds v xi =
     and_then (axis_check (dim_x v) (map (\<lambda>p. case p of (x, y, z) \<Rightarrow> x) xi)) (\<lambda>u.
     and_then (axis_check (dim_y v) (map (\<lambda>p. case p of (x, y, z) \<Rightarrow> y) xi)) (\<lambda>u.
     axis_check (dim_z v) (map (\<lambda>p. case p of (x, y, z) \<Rightarrow> z) xi)))"

text \<open>\<open>np.searchsorted(arange(n), x)\<close>: how many grid values are below \<open>x\<close>.\<close>

definition searchsorted :: "nat \<Rightarrow> real \<Rightarrow> int" where
  "searchsorted n x = (if x \<le> 0 then 0 else min (int n) \<lceil>x\<rceil>)"

definition find_index :: "nat \<Rightarrow> real \<Rightarrow> int" where
  "find_index n x =
     (let i = searchsorted n x - 1;
          i = (if i < 0 then 0 else i);
          i = (if i > int n - 2 then int n - 2 else i)
      in i)"

text \<open>
  Python's index into an axis of \<open>n\<close> entries: \<open>k\<close> from the front, a negative
  \<open>k\<close> from the end, \<open>IndexError\<close> beyond either. \<open>grid_at n k\<close> is
  \<open>arange(n)[k]\<close> for the indices the interpolator uses (\<open>- 1 \<le> k < n\<close>).
\<close>

definition py_index :: "nat \<Rightarrow> int \<Rightarrow> nat outcome" where
  "py_index n k =
     (if 0 \<le> k \<and> k < int n then Returns (nat k)
      else if - int n \<le> k \<and> k < 0 then Returns (nat (k + int n))
      else Raises IndexError)"

definition grid_at :: "nat \<Rightarrow> int \<Rightarrow> real" where
  "grid_at n k = real_of_int (if k < 0 then k + int n else k)"

definition norm_distance :: "nat \<Rightarrow> int \<Rightarrow> real \<Rightarrow> real" where
  "norm_distance n i x =
     (let denom = grid_at n (i + 1) - grid_at n i
      in if denom \<noteq> 0 then (x - grid_at n i) / denom else 0)"

definition vox_at :: "volume \<Rightarrow> int \<times> int \<times> int \<Rightarrow> vec outcome" where
  "vox_at v e =
     (case e of (i, j, k) \<Rightarrow>
        and_then (py_index (dim_x v) i) (\<lambda>a.
        and_then (py_index (dim_y v) j) (\<lambda>b.
        and_then (py_index (dim_z v) k) (\<lambda>c.
          if (a * dim_y v + b) * dim_z v + c < length (voxels v)
          then Returns (voxels v ! ((a * dim_y v + b) * dim_z v + c))
          else Raises IndexError))))"

definition corners :: "int \<times> int \<times> int \<Rightarrow> (int \<times> int \<times> int) list" where
  "corners idx =
     (case idx of (i, j, k) \<Rightarrow>
        [(i, j, k), (i, j, k + 1), (i, j + 1, k), (i, j + 1, k + 1),
         (i + 1, j, k), (i + 1, j, k + 1), (i + 1, j + 1, k), (i + 1, j + 1, k + 1)])"

definition axis_weight :: "int \<Rightarrow> int \<Rightarrow> real \<Rightarrow> real" where
  "axis_weight ei i yi = (if ei = i then 1 - yi else yi)"

definition weight :: "int \<times> int \<times> int \<Rightarrow> vec3 \<Rightarrow> int \<times> int \<times> int \<Rightarrow> real" where
  "weight idx nd e =
     (case (idx, nd, e) of ((i, j, k), (yi, yj, yk), (ei, ej, ek)) \<Rightarrow>
        1 * axis_weight ei i yi * axis_weight ej j yj * axis_weight ek k yk)"

definition v_add :: "vec \<Rightarrow> vec \<Rightarrow> vec" where
  "v_add a b = map2 (+) a b"

definition v_scale :: "real \<Rightarrow> vec \<Rightarrow> vec" where
  "v_scale s a = map (\<lambda>x. x * s) a"

fun evaluate_linear ::
  "volume \<Rightarrow> int \<times> int \<times> int \<Rightarrow> vec3 \<Rightarrow> (int \<times> int \<times> int) list \<Rightarrow> vec \<Rightarrow> vec outcome" where
  "evaluate_linear v idx nd [] acc = Returns acc"
| "evaluate_linear v idx nd (e # es) acc =
     and_then (vox_at v e)
       (\<lambda>u. evaluate_linear v idx nd es (v_add acc (v_scale (weight idx nd e) u)))"

definition interpolate_point :: "volume \<Rightarrow> vec3 \<Rightarrow> vec outcome" where
  "interpolate_point v p =
     (case p of (x, y, z) \<Rightarrow>
        let i = find_index (dim_x v) x;
            j = find_index (dim_y v) y;
            k = find_index (dim_z v) z
        in evaluate_linear v (i, j, k)
             (norm_distance (dim_x v) i x, norm_distance (dim_y v) j y,
              norm_distance (dim_z v) k z)
             (corners (i, j, k)) (replicate (channels v) 0))"

fun map_outcome :: "('a \<Rightarrow> 'b outcome) \<Rightarrow> 'a list \<Rightarrow> 'b list outcome" where
  "map_outcome f [] = Returns []"
| "map_outcome f (x # xs) =
     and_then (f x) (\<lambda>y. and_then (map_outcome f xs) (\<lambda>ys. Returns (y # ys)))"

definition interpolator_call :: "volume \<Rightarrow> vec3 list \<Rightarrow> vec list outcome" where
  "interpolator_call v xi =
     and_then (check_bounds v xi) (\<lambda>u. map_outcome (interpolate_point v) xi)"

text \<open>
  The hook is a Python callable. It receives the interpolated array and the
  container's own \<open>b0\<close>, \<open>bvecs\<close> and \<open>bvals\<close> arrays (the objects, not copies),
  and it may hold whatever else it was built with: it is a function that takes the
  container too and returns it as it leaves it.

  The two reshapes keep \<open>shape[:-1]\<close> of the points and put \<open>dwi.shape[-1]\<close>
  last. The interpolator returns rows of the length of the array it was built from, so
  the second reshape is a \<open>ValueError\<close> when that length is not \<open>dwi.shape[-1]\<close>
  and there is a row.
\<close>

type_synonym postprocessing =
  "container \<Rightarrow> signals \<Rightarrow> real list \<Rightarrow> vec3 list \<Rightarrow> vec \<Rightarrow> signals outcome \<times> container"

definition get_interpolated_dwi ::
  "env \<Rightarrow> container \<Rightarrow> points \<Rightarrow> postprocessing option \<Rightarrow> signals outcome \<times> container" where
  "get_interpolated_dwi E self pts postprocessing =
     (case to_ijk E self pts of
        (Raises e, self') \<Rightarrow> (Raises e, self')
      | (Returns pts', self') \<Rightarrow>
          (case interpolator_call (interpolator self') (coords pts') of
             Raises e \<Rightarrow> (Raises e, self')
           | Returns res \<Rightarrow>
               if res = [] \<or> channels (interpolator self') = channels (dwi (data self'))
               then
                 let result = \<lparr>s_lead = lead pts', s_last = channels (dwi (data self')),
                                s_rows = res\<rparr>
                 in (case postprocessing of
                       None \<Rightarrow> (Returns result, self')
                     | Some f \<Rightarrow>
                         f self' result (b0 (data self')) (bvecs (data self'))
                           (bvals (data self')))
               else (Raises ValueError, self')))"

subsection \<open>Cropping and normalising\<close>

fun take_idx :: "'a list \<Rightarrow> nat list \<Rightarrow> 'a list outcome" where
  "take_idx xs [] = Returns []"
| "take_idx xs (i # js) =
     (if i < length xs then and_then (take_idx xs js) (\<lambda>ys. Returns (xs ! i # ys))
      else Raises IndexError)"

text \<open>\<open>a[..., indices]\<close>: the listed entries of the last axis, at every position.\<close>

definition index_last :: "volume \<Rightarrow> nat list \<Rightarrow> volume outcome" where
  "index_last v indices =
     (if list_all (\<lambda>i. i < channels v) indices
      then and_then (map_outcome (\<lambda>u. take_idx u indices) (voxels v))
             (\<lambda>vs. Returns (v\<lparr>channels := length indices, voxels := vs\<rparr>))
      else Raises IndexError)"

text \<open>
  \<open>crop\<close> assigns the cropped \<open>dwi\<close>, \<open>bvals\<close> and \<open>bvecs\<close> before it calls
  \<open>gradient_table\<close> (line 510): when that call raises, the three assignments stay,
  the flags, the identifier and the interpolator are as before.
\<close>

definition crop ::
  "env \<Rightarrow> container \<Rightarrow> real option \<Rightarrow> real option \<Rightarrow> bool \<Rightarrow> unit outcome \<times> container" where
  "crop E self b_value max_deviation ignore_already_cropped =
     (if cropped (opts self) \<and> \<not> ignore_already_cropped
      then (Raises (raise_class ''DWIAlreadyCroppedError''), self)
      else
        let b = (case b_value of None \<Rightarrow> cfg_cropB_Value E | Some b \<Rightarrow> b);
            dev = (case max_deviation of None \<Rightarrow> cfg_cropMaxDeviation E | Some d \<Rightarrow> d);
            indices = filter (\<lambda>i. \<bar>bvals (data self) ! i - b\<bar> < dev)
                        [0 ..< length (bvals (data self))]
        in (case index_last (dwi (data self)) indices of
              Raises e \<Rightarrow> (Raises e, self)
            | Returns dwi' \<Rightarrow>
                let self1 = self\<lparr>data := (data self)\<lparr>dwi := dwi'\<rparr>\<rparr>;
                    self2 = self1\<lparr>data := (data self1)
                              \<lparr>bvals := map (\<lambda>i. bvals (data self1) ! i) indices\<rparr>\<rparr>
                in (case take_idx (bvecs (data self2)) indices of
                      Raises e \<Rightarrow> (Raises e, self2)
                    | Returns bvecs' \<Rightarrow>
                        let self3 = self2\<lparr>data := (data self2)\<lparr>bvecs := bvecs'\<rparr>\<rparr>
                        in (case gradient_table E (bvals (data self3)) (bvecs (data self3)) of
                              Raises e \<Rightarrow> (Raises e, self3)
                            | Returns g \<Rightarrow>
                                let self4 = self3\<lparr>data := (data self3)\<lparr>gtab := g\<rparr>\<rparr>;
                                    self5 = self4\<lparr>opts := (opts self4)
                                              \<lparr>cropped := True, crop_b := Some b,
                                               crop_max_deviation := Some dev\<rparr>\<rparr>;
                                    self6 = self5\<lparr>id_str := id_str self5 @ ''-cropped['' @
                                              str_float E b @ '', '' @ str_float E dev @ '']''\<rparr>;
                                    self7 = self6\<lparr>interpolator :=
                                              RegularGridInterpolator (dwi (data self6))\<rparr>
                                in (Returns (), self7)))))"

text \<open>
  \<open>np_divide\<close> is the elementwise quotient together with \<open>np.isfinite\<close> of it:
  \<open>None\<close> stands for the non-finite results (\<open>inf\<close>, \<open>-inf\<close>, \<open>nan\<close>), which
  over exact numbers are the quotients by zero.
\<close>

definition np_divide :: "real \<Rightarrow> real \<Rightarrow> real option" where
  "np_divide x y = (if y = 0 then None else Some (x / y))"

definition nb_erroneous :: "vec list \<Rightarrow> real list \<Rightarrow> nat" where
  "nb_erroneous vs bs = sum_list (map2 (\<lambda>u b. length (filter (\<lambda>w. w > b) u)) vs bs)"

definition normalize :: "container \<Rightarrow> unit outcome \<times> container" where
  "normalize self =
     (if cropped (opts self) then (Raises (raise_class ''DWIAlreadyCroppedError''), self)
      else if normalized (opts self)
      then (Raises (raise_class ''DWIAlreadyNormalizedError''), self)
      else if length (b0 (data self)) \<noteq> length (voxels (dwi (data self)))
      then (Raises ValueError, self)
      else
        let b0' = b0 (data self);
            nb_erroneous_voxels = nb_erroneous (voxels (dwi (data self))) b0';
            weights = (if nb_erroneous_voxels \<noteq> 0
                       then Some (map2 (\<lambda>u b. map (\<lambda>w. min w b) u)
                                    (voxels (dwi (data self))) b0')
                       else None)
        in (case weights of
              None \<Rightarrow> (Raises (UnboundLocalError ''weights''), self)
            | Some ws \<Rightarrow>
                let quot = map2 (\<lambda>u b. map (\<lambda>w. np_divide w b) u) ws b0';
                    ws' = map (map (\<lambda>q. case q of None \<Rightarrow> 0 | Some r \<Rightarrow> r)) quot;
                    self1 = self\<lparr>data := (data self)
                              \<lparr>dwi := (dwi (data self))\<lparr>voxels := ws'\<rparr>\<rparr>\<rparr>;
                    self2 = self1\<lparr>id_str := id_str self1 @ ''-normalized''\<rparr>;
                    self3 = self2\<lparr>opts := (opts self2)\<lparr>normalized := True\<rparr>\<rparr>;
                    self4 = self3\<lparr>interpolator :=
                              RegularGridInterpolator (dwi (data self3))\<rparr>
                in (Returns (), self4)))"

subsection \<open>Loading\<close>

text \<open>
  The files a container is read from. \<open>read_bvals_bvecs\<close> (dipy) opens the b-value
  file, then the b-vector file; \<open>nb.load\<close> (nibabel) opens an image. Opening a path
  that does not exist raises \<open>FileNotFoundError\<close> carrying the path; a file of the
  wrong kind is a \<open>ValueError\<close> of the library.
\<close>

datatype disk_file = BvalsFile vec | BvecsFile "vec3 list" | ImageFile volume affine

type_synonym filesystem = "string \<Rightarrow> disk_file option"

definition read_bvals_bvecs ::
  "filesystem \<Rightarrow> string \<Rightarrow> string \<Rightarrow> (vec \<times> vec3 list) outcome" where
  "read_bvals_bvecs fs fbvals fbvecs =
     (case fs fbvals of
        None \<Rightarrow> Raises (FileNotFoundError fbvals)
      | Some (BvalsFile bs) \<Rightarrow>
          (case fs fbvecs of
             None \<Rightarrow> Raises (FileNotFoundError fbvecs)
           | Some (BvecsFile vs) \<Rightarrow> Returns (bs, vs)
           | Some other \<Rightarrow> Raises ValueError)
      | Some other \<Rightarrow> Raises ValueError)"

definition nb_load :: "filesystem \<Rightarrow> string \<Rightarrow> (volume \<times> affine) outcome" where
  "nb_load fs p =
     (case fs p of
        None \<Rightarrow> Raises (FileNotFoundError p)
      | Some (ImageFile v a) \<Rightarrow> Returns (v, a)
      | Some other \<Rightarrow> Raises ValueError)"

text \<open>\<open>get_data()\<close> of a 3-D image: one number per grid position.\<close>

definition get_data_3d :: "volume \<times> affine \<Rightarrow> real list" where
  "get_data_3d im = concat (voxels (fst im))"

text \<open>\<open>os.path.join(a, b)\<close> and \<open>path.rstrip(os.path.sep)\<close> with separator \<open>/\<close>.\<close>

definition path_join :: "string \<Rightarrow> string \<Rightarrow> string" where
  "path_join a b =
     (if b \<noteq> [] \<and> hd b = CHR ''/'' then b
      else if a = [] \<or> last a = CHR ''/'' then a @ b
      else a @ ''/'' @ b)"

definition rstrip_sep :: "string \<Rightarrow> string" where
  "rstrip_sep p = rev (dropWhile (\<lambda>c. c = CHR ''/'') (rev p))"

definition lookup :: "(string \<Rightarrow> string option) \<Rightarrow> string \<Rightarrow> string outcome" where
  "lookup d k = (case d k of None \<Rightarrow> Raises (KeyError k) | Some v \<Rightarrow> Returns v)"

text \<open>
  The \<open>try\<close> block of \<open>_retrieve_data\<close> (lines 352 to 356): the four files it
  reads, in order.
\<close>

definition load_tried ::
  "filesystem \<Rightarrow> string \<Rightarrow> (string \<Rightarrow> string option) \<Rightarrow>
   ((vec \<times> vec3 list) \<times> (volume \<times> affine) \<times> real list) outcome" where
  "load_tried fs pth file_names =
     and_then (lookup file_names ''bvals'') (\<lambda>n1.
     and_then (lookup file_names ''bvecs'') (\<lambda>n2.
     and_then (read_bvals_bvecs fs (path_join pth n1) (path_join pth n2)) (\<lambda>bb.
     and_then (lookup file_names ''img'') (\<lambda>n3.
     and_then (nb_load fs (path_join pth n3)) (\<lambda>im.
     and_then (lookup file_names ''t1'') (\<lambda>n4.
     and_then (nb_load fs (path_join pth n4)) (\<lambda>t.
     Returns (bb, im, get_data_3d t))))))))"

text \<open>\<open>np.mean\<close> of a selection that is not empty.\<close>

definition np_mean :: "vec \<Rightarrow> real" where
  "np_mean xs = sum_list xs / real (length xs)"

text \<open>
  \<open>dwi[..., bvals < b0_threshold].mean(axis=-1)\<close>: a boolean index on the last axis.
  With no b-value below the threshold the mean of every voxel is NaN.
\<close>

definition mean_b0 :: "volume \<Rightarrow> vec \<Rightarrow> real \<Rightarrow> real list outcome" where
  "mean_b0 v bs thr =
     (if length bs \<noteq> channels v then Raises IndexError
      else if voxels v = [] then Returns []
      else if list_ex (\<lambda>b. b < thr) bs
      then Returns (map (\<lambda>u. np_mean (map fst (filter (\<lambda>(w, b). b < thr) (zip u bs))))
                      (voxels v))
      else Raises (NotANumber ''b0''))"

definition retrieve_data ::
  "env \<Rightarrow> filesystem \<Rightarrow> string \<Rightarrow> (string \<Rightarrow> string option) \<Rightarrow> bool \<Rightarrow> real \<Rightarrow>
   rawdata outcome" where
  "retrieve_data E fs pth file_names denoise b0_thr =
     (case load_tried fs pth file_names of
        Raises (FileNotFoundError f) \<Rightarrow> Raises (raise_class ''DataContainerNotLoadableError'')
      | Raises e \<Rightarrow> Raises e
      | Returns ((bs, vs), im, t) \<Rightarrow>
          and_then (gradient_table E bs vs) (\<lambda>g.
            let d = fst im;
                a = snd im;
                d = (if denoise then lib_localpca E d else d)
            in and_then
                 (if file_names ''mask'' \<noteq> None
                  then and_then (lookup file_names ''mask'') (\<lambda>n5.
                       and_then (nb_load fs (path_join pth n5)) (\<lambda>m.
                       Returns (get_data_3d m)))
                  else Returns (lib_median_otsu E d))
                 (\<lambda>mask.
                    and_then (mean_b0 d bs b0_thr) (\<lambda>b.
                      Returns \<lparr>bvals = bs, bvecs = vs, img = im, t1 = t, gtab = g, dwi = d,
                               aff = a, fa = None, binarymask = mask, b0 = b\<rparr>))))"

text \<open>
  \<open>DataContainer.__init__\<close>. A constructor that raises returns no object: the
  outcome is the exception alone.
\<close>

definition init ::
  "env \<Rightarrow> filesystem \<Rightarrow> string \<Rightarrow> (string \<Rightarrow> string option) \<Rightarrow> bool option \<Rightarrow>
   real option \<Rightarrow> container outcome" where
  "init E fs pth file_names denoise b0_thr =
     (let denoise = (case denoise of None \<Rightarrow> cfg_denoise E | Some d \<Rightarrow> d);
          b0_thr = (case b0_thr of None \<Rightarrow> cfg_b0_threshold E | Some t \<Rightarrow> t);
          os = \<lparr>denoised = denoise, cropped = False, normalized = False,
               b0_threshold = b0_thr, crop_b = None, crop_max_deviation = None\<rparr>;
          pth = rstrip_sep pth
      in and_then (retrieve_data E fs pth file_names denoise b0_thr) (\<lambda>d.
           let i = ''DataContainer'' @ map (\<lambda>c. if c = CHR ''/'' then CHR ''-'' else c) pth
                     @ ''-'' @ ''b0thr-'' @ str_float E b0_thr;
               i = (if denoise then i @ ''-denoised'' else i)
           in Returns \<lparr>opts = os, path = pth, data = d, id_str = i,
                       interpolator = RegularGridInterpolator (dwi d)\<rparr>))"

subsection \<open>A small environment\<close>

text \<open>
  \<open>np.linalg.inv\<close> as the exact inverse with every entry rounded: what LAPACK
  returns for the diagonal affines below.
\<close>

fun round3 :: "vec3 \<Rightarrow> vec3" where
  "round3 (x, y, z) = (binary64 x, binary64 y, binary64 z)"

definition round_affine :: "affine \<Rightarrow> affine" where
  "round_affine a =
     \<lparr>rzs = (case rzs a of (r1, r2, r3) \<Rightarrow> (round3 r1, round3 r2, round3 r3)),
      trans = round3 (trans a)\<rparr>"

definition rounded_inverse :: "affine \<Rightarrow> affine outcome" where
  "rounded_inverse a =
     (case inverse_affine a of
        None \<Rightarrow> Raises LinAlgError
      | Some b \<Rightarrow> Returns (round_affine b))"

text \<open>
  dipy's \<open>gradient_table\<close> with its defaults (\<open>b0_threshold=50\<close>,
  \<open>atol=1e-2\<close>). It refuses a table without a gradient, a table of two gradients
  (the 2x3 array of b-vectors is taken for a transposed one), arrays of different
  lengths, and a b-vector whose norm is not within \<open>atol\<close> of one where the b-value
  is above the threshold. In the table a b-vector that is not of unit length is zero,
  and so is its b-value.
\<close>

definition close_to_1 :: "vec3 \<Rightarrow> bool" where
  "close_to_1 v = (9801 / 10000 \<le> dot3 v v \<and> dot3 v v \<le> 10201 / 10000)"

definition dipy_gradient_table :: "vec \<Rightarrow> vec3 list \<Rightarrow> (vec \<times> vec3 list) outcome" where
  "dipy_gradient_table bs vs =
     (if length vs = 0 then Raises ValueError
      else if length vs = 2 then Raises ValueError
      else if length bs = length vs
      then (if list_all (\<lambda>(b, v). b \<le> 50 \<or> close_to_1 v) (zip bs vs)
            then Returns (map2 (\<lambda>b v. if close_to_1 v then b else 0) bs vs,
                          map (\<lambda>v. if close_to_1 v then v else (0, 0, 0)) vs)
            else Raises ValueError)
      else Raises ValueError)"

definition ex_env :: env where
  "ex_env =
     \<lparr>cfg_denoise = False, cfg_b0_threshold = 10, cfg_cropB_Value = 1000,
      cfg_cropMaxDeviation = 100, str_float = (\<lambda>x. ''?''),
      lib_localpca = (\<lambda>v. v), lib_median_otsu = (\<lambda>v. map (\<lambda>u. 1) (voxels v)),
      np_linalg_inv = rounded_inverse, gradient_table = dipy_gradient_table\<rparr>"

subsection \<open>A small container\<close>

text \<open>
  A container holding a 2x2x2 image with two channels, b-values \<open>0\<close> and
  \<open>1000\<close>, voxel size 2 and origin \<open>(1, 1, 1)\<close>, and the files of that image.
\<close>

definition ex_volume :: volume where
  "ex_volume =
     \<lparr>dim_x = 2, dim_y = 2, dim_z = 2, channels = 2,
      voxels = [[4, 8], [4, 2], [2, 1], [2, 2], [8, 4], [8, 2], [1, 1], [1, 0]]\<rparr>"

definition ex_affine :: affine where
  "ex_affine = \<lparr>rzs = ((2, 0, 0), (0, 2, 0), (0, 0, 2)), trans = (1, 1, 1)\<rparr>"

definition ex_t1 :: volume where
  "ex_t1 =
     \<lparr>dim_x = 2, dim_y = 2, dim_z = 2, channels = 1,
      voxels = [[1], [1], [1], [1], [1], [1], [1], [1]]\<rparr>"

definition ex_bvecs :: "vec3 list" where
  "ex_bvecs = [(0, 0, 0), (1, 0, 0)]"

definition ex_fs :: filesystem where
  "ex_fs p =
     (if p = ''scan/bvals'' then Some (BvalsFile [0, 1000])
      else if p = ''scan/bvecs'' then Some (BvecsFile ex_bvecs)
      else if p = ''scan/data.nii.gz'' then Some (ImageFile ex_volume ex_affine)
      else if p = ''scan/T1.nii.gz'' then Some (ImageFile ex_t1 ex_affine)
      else None)"

definition ex_names :: "string \<Rightarrow> string option" where
  "ex_names k =
     (if k = ''bvals'' then Some ''bvals''
      else if k = ''bvecs'' then Some ''bvecs''
      else if k = ''img'' then Some ''data.nii.gz''
      else if k = ''t1'' then Some ''T1.nii.gz''
      else None)"

definition ex_names_mask :: "string \<Rightarrow> string option" where
  "ex_names_mask k = (if k = ''mask'' then Some ''mask.nii.gz'' else ex_names k)"

definition ex_container :: container where
  "ex_container =
     \<lparr>opts = \<lparr>denoised = False, cropped = False, normalized = False, b0_threshold = 10,
              crop_b = None, crop_max_deviation = None\<rparr>,
      path = ''scan'',
      data = \<lparr>bvals = [0, 1000], bvecs = ex_bvecs, img = (ex_volume, ex_affine),
              t1 = [1, 1, 1, 1, 1, 1, 1, 1], gtab = ([0, 1000], ex_bvecs),
              dwi = ex_volume, aff = ex_affine, fa = None,
              binarymask = [1, 1, 1, 1, 1, 1, 1, 1], b0 = [4, 4, 2, 2, 8, 8, 1, 1]\<rparr>,
      id_str = ''DataContainer'' @ ''scan'' @ ''-b0thr-?'',
      interpolator = ex_volume\<rparr>"

text \<open>The same container with no value above its \<open>b0\<close>.\<close>

definition ex_quiet :: container where
  "ex_quiet =
     ex_container\<lparr>data := (data ex_container)\<lparr>dwi := ex_volume\<lparr>voxels :=
       [[4, 3], [4, 2], [2, 1], [2, 2], [8, 4], [8, 2], [1, 1], [1, 0]]\<rparr>\<rparr>\<rparr>"

text \<open>
  The same grid with three channels, b-values \<open>0\<close>, \<open>1000\<close> and \<open>1000\<close>: its
  files, and the container \<open>init\<close> builds from them (lemma \<open>ex3_init\<close>).
\<close>

definition ex3_volume :: volume where
  "ex3_volume =
     \<lparr>dim_x = 2, dim_y = 2, dim_z = 2, channels = 3,
      voxels = [[4, 8, 6], [4, 2, 1], [2, 1, 3], [2, 2, 2],
                [8, 4, 2], [8, 2, 4], [1, 1, 1], [1, 0, 2]]\<rparr>"

definition ex3_bvecs :: "vec3 list" where
  "ex3_bvecs = [(0, 0, 0), (1, 0, 0), (0, 1, 0)]"

definition ex3_fs :: filesystem where
  "ex3_fs p =
     (if p = ''scan/bvals'' then Some (BvalsFile [0, 1000, 1000])
      else if p = ''scan/bvecs'' then Some (BvecsFile ex3_bvecs)
      else if p = ''scan/data.nii.gz'' then Some (ImageFile ex3_volume ex_affine)
      else if p = ''scan/T1.nii.gz'' then Some (ImageFile ex_t1 ex_affine)
      else None)"

definition ex3_container :: container where
  "ex3_container =
     \<lparr>opts = \<lparr>denoised = False, cropped = False, normalized = False, b0_threshold = 10,
              crop_b = None, crop_max_deviation = None\<rparr>,
      path = ''scan'',
      data = \<lparr>bvals = [0, 1000, 1000], bvecs = ex3_bvecs, img = (ex3_volume, ex_affine),
              t1 = [1, 1, 1, 1, 1, 1, 1, 1], gtab = ([0, 1000, 1000], ex3_bvecs),
              dwi = ex3_volume, aff = ex_affine, fa = None,
              binarymask = [1, 1, 1, 1, 1, 1, 1, 1], b0 = [4, 4, 2, 2, 8, 8, 1, 1]\<rparr>,
      id_str = ''DataContainer'' @ ''scan'' @ ''-b0thr-?'',
      interpolator = ex3_volume\<rparr>"



text \<open>A 1x2x2 grid: a single sample on the first axis.\<close>

definition ex_slab :: volume where
  "ex_slab =
     \<lparr>dim_x = 1, dim_y = 2, dim_z = 2, channels = 2,
      voxels = [[4, 8], [4, 2], [2, 1], [2, 2]]\<rparr>"

subsection \<open>Arrays of a given shape\<close>

text \<open>
  An array of shape \<open>(dim_x, dim_y, dim_z, channels)\<close> holds one entry of
  \<open>voxels\<close> per grid position.
\<close>

definition wf_volume :: "volume \<Rightarrow> bool" where
  "wf_volume v = (length (voxels v) = dim_x v * dim_y v * dim_z v)"

text \<open>
  The points the interpolator accepts: the grid has a sample on every axis and every
  point lies between the first and the last sample of each axis.
\<close>

definition inside_grid :: "volume \<Rightarrow> vec3 list \<Rightarrow> bool" where
  "inside_grid v xi =
     (0 < dim_x v \<and> 0 < dim_y v \<and> 0 < dim_z v \<and> list_all (point_in_bounds v) xi)"
section \<open>The tracking engine called by \<open>03_ismrm2015.py\<close>\<close>

text \<open>
  \<open>03_ismrm2015.py\<close> calls \<open>tracking.startWithRNNBatches\<close> (line 137) and
  \<open>dwi_tools.filterStreamlinesByLength\<close> and
  \<open>dwi_tools.filterStreamlinesByMaxLength\<close> (lines 144 and 145). The modules
  \<open>src/tracking.py\<close> and \<open>src/dwi_tools.py\<close> are not among the sources, so the
  definitions of this section follow the specification (sections 3 and 4.2 to 4.7).
\<close>

subsection \<open>Data model\<close>

text \<open>
  Modelled from the spec: the termination causes of section 7 and the particle states of
  section 4.5, declared in the missing \<open>src/tracking.py\<close>.
\<close>

datatype cause =
  OUT_OF_BOUNDS | DEGENERATE_DIRECTION | LOW_CONFIDENCE | OUT_OF_MASK | MAX_ITERATIONS

datatype pstate = ACTIVE | TERMINATED cause

text \<open>
  Modelled from the spec: the Particle of section 3 (position, direction or null,
  append-only path history, state, step count) with its context window (section 4.2),
  kept in the missing \<open>src/tracking.py\<close>.
\<close>

record particle =
  position :: vec3
  direction :: "vec3 option"
  pathHistory :: "vec3 list"
  pstatus :: pstate
  age :: nat
  window :: "vec list"

text \<open>
  Modelled from the spec: the TrackingConfiguration of section 3; in the program these
  are the command line arguments of \<open>03_ismrm2015.py\<close> handed to the missing
  \<open>src/tracking.py\<close> and \<open>src/dwi_tools.py\<close>.
\<close>

record TrackingConfiguration =
  stepWidth :: real
  maxIterations :: nat
  threshold :: real
  minLength :: real
  maxLength :: real
  historyDepth :: nat

text \<open>
  Modelled from the spec: the collaborators of section 6 as the engine sees them: the
  interpolator (\<open>None\<close> signals an out-of-grid position), the predictor (a raw
  direction and, when the predictor has that capability, a continuation probability),
  the optional mask (\<open>True\<close> where its value is not zero), and the fixed small
  epsilon of section 4.4. They are arguments of the missing \<open>src/tracking.py\<close>.
\<close>

record engine =
  sample_at :: "vec3 \<Rightarrow> vec option"
  predict :: "vec list \<Rightarrow> vec3 \<times> real option"
  mask_at :: "(vec3 \<Rightarrow> bool) option"
  epsilon :: real

subsection \<open>Context window\<close>

text \<open>
  Modelled from the spec: section 4.2, the context window of the missing
  \<open>src/tracking.py\<close>. The first sample is replicated to the depth \<open>K\<close>; later
  insertions evict the oldest entry, so the length never exceeds \<open>K\<close> and the order
  is oldest to newest.
\<close>

definition push :: "nat \<Rightarrow> vec \<Rightarrow> vec list \<Rightarrow> vec list" where
  "push K smp w =
     (if w = [] then replicate K smp
      else drop (length w + 1 - K) (w @ [smp]))"

subsection \<open>Sign resolution\<close>

definition norm3 :: "vec3 \<Rightarrow> real" where
  "norm3 v = sqrt (dot3 v v)"

text \<open>
  Modelled from the spec: normalisation to unit length (section 4.4), done in the
  missing \<open>src/tracking.py\<close>. Dividing by a zero norm is the fault
  \<open>ZeroDivisionError\<close>.
\<close>

definition normalize3 :: "vec3 \<Rightarrow> vec3 outcome" where
  "normalize3 v =
     (if norm3 v = 0 then Raises ZeroDivisionError
      else Returns (scale3 (1 / norm3 v) v))"

text \<open>
  Modelled from the spec: the result of sign resolution (section 4.4) in the missing
  \<open>src/tracking.py\<close>: the raw output with its sign resolved and its unit direction,
  or "no viable direction".
\<close>

datatype resolution = Resolved vec3 vec3 | NoViableDirection

text \<open>
  Modelled from the spec: section 4.4, the Sign/Direction Resolver of the missing
  \<open>src/tracking.py\<close>. A raw output whose norm is within epsilon of zero is
  degenerate. Otherwise the raw output is normalised; without a previous direction it
  is taken as returned; with one, the dot product of the normalised raw output with
  the previous direction is computed and the raw output is negated if that is
  negative. The unit direction used afterwards is the normalised resolved output.
\<close>

definition resolve_sign :: "real \<Rightarrow> vec3 option \<Rightarrow> vec3 \<Rightarrow> resolution outcome" where
  "resolve_sign eps prev raw =
     (if norm3 raw \<le> eps then Returns NoViableDirection
      else and_then (normalize3 raw) (\<lambda>u.
             let r = (case prev of
                        None \<Rightarrow> raw
                      | Some d \<Rightarrow> if dot3 u d < 0 then scale3 (- 1) raw else raw)
             in and_then (normalize3 r) (\<lambda>v. Returns (Resolved r v))))"

subsection \<open>Stepper\<close>

text \<open>
  Modelled from the spec: section 4.5, the per-particle step of the missing
  \<open>src/tracking.py\<close>, steps 1 to 9 in their order. A terminated particle is left as
  it is.
\<close>

definition stepper :: "engine \<Rightarrow> TrackingConfiguration \<Rightarrow> particle \<Rightarrow> particle outcome" where
  "stepper E C p =
     (if pstatus p \<noteq> ACTIVE then Returns p
      else case sample_at E (position p) of
        None \<Rightarrow> Returns (p\<lparr>pstatus := TERMINATED OUT_OF_BOUNDS\<rparr>)
      | Some smp \<Rightarrow>
          let p1 = p\<lparr>window := push (historyDepth C) smp (window p)\<rparr>;
              raw = fst (predict E (window p1));
              prob = snd (predict E (window p1))
          in and_then (resolve_sign (epsilon E) (direction p1) raw) (\<lambda>res.
               case res of
                 NoViableDirection \<Rightarrow>
                   Returns (p1\<lparr>pstatus := TERMINATED DEGENERATE_DIRECTION\<rparr>)
               | Resolved r v \<Rightarrow>
                   if (case prob of None \<Rightarrow> False | Some q \<Rightarrow> q < threshold C)
                   then Returns (p1\<lparr>pstatus := TERMINATED LOW_CONFIDENCE\<rparr>)
                   else
                     let new_position = add3 (position p1) (scale3 (stepWidth C) v)
                     in if (case mask_at E of None \<Rightarrow> False | Some m \<Rightarrow> \<not> m new_position)
                        then Returns (p1\<lparr>pstatus := TERMINATED OUT_OF_MASK\<rparr>)
                        else
                          let p2 = p1\<lparr>position := new_position, direction := Some v,
                                      pathHistory := pathHistory p1 @ [new_position],
                                      age := age p1 + 1\<rparr>
                          in if age p2 \<ge> maxIterations C
                             then Returns (p2\<lparr>pstatus := TERMINATED MAX_ITERATIONS\<rparr>)
                             else Returns p2))"

text \<open>
  Modelled from the spec: steps 5 to 9 of section 4.5 as a function of the resolution
  of step 4, for the stepper of the missing \<open>src/tracking.py\<close>; lemma
  \<open>stepper_sampled\<close> shows that this is what \<open>stepper\<close> computes.
\<close>

definition after_resolution ::
  "engine \<Rightarrow> TrackingConfiguration \<Rightarrow> particle \<Rightarrow> real option \<Rightarrow> resolution \<Rightarrow> particle" where
  "after_resolution E C p1 prob res =
     (case res of
        NoViableDirection \<Rightarrow> p1\<lparr>pstatus := TERMINATED DEGENERATE_DIRECTION\<rparr>
      | Resolved r v \<Rightarrow>
          if (case prob of None \<Rightarrow> False | Some q \<Rightarrow> q < threshold C)
          then p1\<lparr>pstatus := TERMINATED LOW_CONFIDENCE\<rparr>
          else if (case mask_at E of None \<Rightarrow> False
                   | Some m \<Rightarrow> \<not> m (add3 (position p1) (scale3 (stepWidth C) v)))
          then p1\<lparr>pstatus := TERMINATED OUT_OF_MASK\<rparr>
          else if age p1 + 1 \<ge> maxIterations C
          then p1\<lparr>position := add3 (position p1) (scale3 (stepWidth C) v),
                  direction := Some v,
                  pathHistory := pathHistory p1 @ [add3 (position p1) (scale3 (stepWidth C) v)],
                  age := age p1 + 1, pstatus := TERMINATED MAX_ITERATIONS\<rparr>
          else p1\<lparr>position := add3 (position p1) (scale3 (stepWidth C) v),
                  direction := Some v,
                  pathHistory := pathHistory p1 @ [add3 (position p1) (scale3 (stepWidth C) v)],
                  age := age p1 + 1\<rparr>)"

subsection \<open>Batch scheduler\<close>

definition is_active :: "particle \<Rightarrow> bool" where
  "is_active p = (pstatus p = ACTIVE)"

definition active_count :: "particle list \<Rightarrow> nat" where
  "active_count ps = length (filter is_active ps)"

text \<open>
  Modelled from the spec: section 4.6, the batch loop of the missing
  \<open>src/tracking.py\<close> (\<open>startWithRNNBatches\<close>): the stepper is driven over the
  batch for the given number of rounds; a particle keeps its place in the batch, so
  the seed index is the list position.
\<close>

fun run_rounds ::
  "engine \<Rightarrow> TrackingConfiguration \<Rightarrow> nat \<Rightarrow> particle list \<Rightarrow> particle list outcome" where
  "run_rounds E C 0 ps = Returns ps"
| "run_rounds E C (Suc n) ps =
     and_then (map_outcome (stepper E C) ps) (run_rounds E C n)"

text \<open>
  Modelled from the spec: the work of the batch loop of the missing
  \<open>src/tracking.py\<close>, counted in stepper invocations on active particles (section 5:
  one step per active particle per iteration).
\<close>

fun work :: "engine \<Rightarrow> TrackingConfiguration \<Rightarrow> nat \<Rightarrow> particle list \<Rightarrow> nat" where
  "work E C 0 ps = 0"
| "work E C (Suc n) ps =
     active_count ps +
     (case map_outcome (stepper E C) ps of
        Returns ps' \<Rightarrow> work E C n ps'
      | Raises e \<Rightarrow> 0)"

text \<open>
  Modelled from the spec: the batch invariant of section 3 (every particle of a batch
  shares the iteration count) for the batch of the missing \<open>src/tracking.py\<close>,
  after \<open>k\<close> rounds: a particle has made at most \<open>k\<close> steps, its path holds one
  point per step, and a particle still active has made exactly \<open>k\<close>.
\<close>

definition round_inv :: "TrackingConfiguration \<Rightarrow> nat \<Rightarrow> particle \<Rightarrow> bool" where
  "round_inv C k p =
     (age p \<le> k \<and> length (pathHistory p) = age p \<and> (is_active p \<longrightarrow> age p = k))"

text \<open>
  Modelled from the spec: particle creation at seed time (section 3) in the missing
  \<open>src/tracking.py\<close>.
\<close>

definition init_particle :: "vec3 \<Rightarrow> vec3 option \<Rightarrow> particle" where
  "init_particle seed d =
     \<lparr>position = seed, direction = d, pathHistory = [], pstatus = ACTIVE, age = 0,
      window = []\<rparr>"

text \<open>
  Modelled from the spec: section 4.6, the reverse particle of a seed in the missing
  \<open>src/tracking.py\<close>: it starts with the geometrically opposite initial condition,
  the negated first direction of the forward particle (none if the forward particle
  found none).
\<close>

definition reverse_particle ::
  "engine \<Rightarrow> TrackingConfiguration \<Rightarrow> vec3 \<Rightarrow> particle outcome" where
  "reverse_particle E C seed =
     and_then (stepper E C (init_particle seed None)) (\<lambda>p.
       Returns (init_particle seed (map_option (scale3 (- 1)) (direction p))))"

subsection \<open>Streamline assembler and length filters\<close>

fun dist3 :: "vec3 \<Rightarrow> vec3 \<Rightarrow> real" where
  "dist3 (a, b, c) (x, y, z) = sqrt ((a - x)\<^sup>2 + (b - y)\<^sup>2 + (c - z)\<^sup>2)"

text \<open>
  Modelled from the spec: section 4.7, the approximate arc length of a streamline (the
  sum of the distances of consecutive points), computed in the missing
  \<open>src/dwi_tools.py\<close>.
\<close>

fun arc_length :: "vec3 list \<Rightarrow> real" where
  "arc_length (p # q # ps) = dist3 p q + arc_length (q # ps)"
| "arc_length ps = 0"

text \<open>
  Modelled from the spec: section 4.7, \<open>filterStreamlinesByLength\<close> of the missing
  \<open>src/dwi_tools.py\<close>: a streamline whose arc length is below the minimum is
  discarded.
\<close>

definition filterStreamlinesByLength :: "vec3 list list \<Rightarrow> real \<Rightarrow> vec3 list list" where
  "filterStreamlinesByLength streamlines minimumLength =
     filter (\<lambda>sl. \<not> arc_length sl < minimumLength) streamlines"

text \<open>
  Modelled from the spec: section 4.7, \<open>filterStreamlinesByMaxLength\<close> of the missing
  \<open>src/dwi_tools.py\<close>, with the full-discard policy that the test of section 8
  fixes: a streamline whose arc length is above the maximum is discarded.
\<close>

definition filterStreamlinesByMaxLength :: "vec3 list list \<Rightarrow> real \<Rightarrow> vec3 list list" where
  "filterStreamlinesByMaxLength streamlines maximumLength =
     filter (\<lambda>sl. \<not> arc_length sl > maximumLength) streamlines"

text \<open>
  Modelled from the spec: section 4.7, the assembly of one streamline in the missing
  \<open>src/tracking.py\<close>: the reverse path reversed, the seed, the forward path.
\<close>

definition assemble :: "vec3 \<Rightarrow> particle \<Rightarrow> particle \<Rightarrow> vec3 list" where
  "assemble seed fwd bwd = rev (pathHistory bwd) @ [seed] @ pathHistory fwd"

text \<open>
  Modelled from the spec: the whole run (sections 4.6 and 4.7; \<open>startWithRNNBatches\<close>
  of the missing \<open>src/tracking.py\<close> followed by the two filters, as lines 137 to 145
  of \<open>03_ismrm2015.py\<close> call them): the forward batch and the reverse batch each
  run for \<open>maxIterations\<close> rounds, the two paths of each seed are joined in seed
  order, and the streamlines are filtered by length.
\<close>

definition track ::
  "engine \<Rightarrow> TrackingConfiguration \<Rightarrow> vec3 list \<Rightarrow> vec3 list list outcome" where
  "track E C seeds =
     and_then (run_rounds E C (maxIterations C) (map (\<lambda>sd. init_particle sd None) seeds))
       (\<lambda>fwd.
     and_then (map_outcome (reverse_particle E C) seeds) (\<lambda>starts.
     and_then (run_rounds E C (maxIterations C) starts) (\<lambda>bwd.
       Returns (filterStreamlinesByMaxLength
                  (filterStreamlinesByLength
                     (map (\<lambda>(sd, f, b). assemble sd f b) (zip seeds (zip fwd bwd)))
                     (minLength C))
                  (maxLength C)))))"

subsection \<open>A small run\<close>

text \<open>
  The end-to-end example of section 8 of the specification: a predictor that always
  returns \<open>(1, 0, 0)\<close> with probability 1 over a 5x5x5 grid, step width 1,
  \<open>maxIterations = 10\<close>.
\<close>

definition ex_engine :: engine where
  "ex_engine =
     \<lparr>sample_at = (\<lambda>p. case p of (x, y, z) \<Rightarrow>
         if 0 \<le> x \<and> x \<le> 4 \<and> 0 \<le> y \<and> y \<le> 4 \<and> 0 \<le> z \<and> z \<le> 4 then Some [1] else None),
      predict = (\<lambda>w. ((1, 0, 0), Some 1)),
      mask_at = None,
      epsilon = 1 / 1000\<rparr>"

text \<open>The same engine with a predictor that returns the zero vector.\<close>

definition ex_stalled :: engine where
  "ex_stalled = ex_engine\<lparr>predict := (\<lambda>w. ((0, 0, 0), Some 1))\<rparr>"

definition ex_config :: TrackingConfiguration where
  "ex_config =
     \<lparr>stepWidth = 1, maxIterations = 10, threshold = 1 / 2, minLength = 20,
      maxLength = 200, historyDepth = 3\<rparr>"

section \<open>Properties of the loss functions\<close>

subsection \<open>Sign invariance\<close>

lemma K_square_t_neg: "K_square (t_neg xs) = K_square xs"
  by (simp add: K_square_def t_neg_def)

lemma K_l2_normalize_t_neg: "K_l2_normalize (t_neg xs) = t_neg (K_l2_normalize xs)"
  by (simp add: K_l2_normalize_def K_square_t_neg) (simp add: t_neg_def)

lemma sum_list_map_uminus: "sum_list (map uminus xs) = - sum_list (xs :: real list)"
  by (induction xs) simp_all

lemma map2_mult_neg_right:
  "map2 (*) xs (map uminus ys) = map uminus (map2 (*) xs (ys :: real list))"
  by (induction xs arbitrary: ys) (auto simp: zip_Cons1 split: list.splits)

lemma map2_mult_neg_left:
  "map2 (*) (map uminus xs) ys = map uminus (map2 (*) (xs :: real list) ys)"
  by (induction xs arbitrary: ys) (auto simp: zip_Cons1 split: list.splits)

lemma broadcast_mult_neg_right:
  "broadcast (*) xs (t_neg ys) =
     (case broadcast (*) xs ys of Returns p \<Rightarrow> Returns (t_neg p) | Raises e \<Rightarrow> Raises e)"
proof (cases "length xs = length ys")
  case True
  then show ?thesis
    by (simp add: broadcast_def t_neg_def map2_mult_neg_right)
next
  case False
  show ?thesis
  proof (cases "length xs = 1")
    case True
    with False show ?thesis
      by (simp add: broadcast_def t_neg_def comp_def)
  next
    case xs1: False
    show ?thesis
    proof (cases "length ys = 1")
      case True
      then obtain y where "ys = [y]"
        by (cases ys) auto
      with False xs1 show ?thesis
        by (simp add: broadcast_def t_neg_def comp_def)
    next
      case False
      with \<open>length xs \<noteq> length ys\<close> xs1 show ?thesis
        by (simp add: broadcast_def t_neg_def)
    qed
  qed
qed

lemma broadcast_mult_neg_left:
  "broadcast (*) (t_neg xs) ys =
     (case broadcast (*) xs ys of Returns p \<Rightarrow> Returns (t_neg p) | Raises e \<Rightarrow> Raises e)"
proof (cases "length xs = length ys")
  case True
  then show ?thesis
    by (simp add: broadcast_def t_neg_def map2_mult_neg_left)
next
  case False
  show ?thesis
  proof (cases "length xs = 1")
    case True
    then obtain x where "xs = [x]"
      by (cases xs) auto
    with False show ?thesis
      by (simp add: broadcast_def t_neg_def comp_def)
  next
    case xs1: False
    show ?thesis
    proof (cases "length ys = 1")
      case True
      with False xs1 show ?thesis
        by (simp add: broadcast_def t_neg_def comp_def)
    next
      case False
      with \<open>length xs \<noteq> length ys\<close> xs1 show ?thesis
        by (simp add: broadcast_def t_neg_def)
    qed
  qed
qed

lemma K_sum_t_neg_sq: "(K_sum (t_neg p))\<^sup>2 = (K_sum p)\<^sup>2"
  by (simp add: K_sum_def t_neg_def sum_list_map_uminus)

lemma scp2_neg_pred:
  "squared_cosine_proximity_2 y_true (t_neg y_pred) = squared_cosine_proximity_2 y_true y_pred"
  by (cases "broadcast (*) (K_l2_normalize y_true) (K_l2_normalize y_pred)")
     (simp_all add: squared_cosine_proximity_2_def K_l2_normalize_t_neg
        broadcast_mult_neg_right K_sum_t_neg_sq)

lemma scp2_neg_true:
  "squared_cosine_proximity_2 (t_neg y_true) y_pred = squared_cosine_proximity_2 y_true y_pred"
  by (cases "broadcast (*) (K_l2_normalize y_true) (K_l2_normalize y_pred)")
     (simp_all add: squared_cosine_proximity_2_def K_l2_normalize_t_neg
        broadcast_mult_neg_left K_sum_t_neg_sq)

lemma minus_one_times_t_neg: "map (\<lambda>x. - 1 * x) (t_neg ys) = (ys :: vec)"
  by (simp add: t_neg_def comp_def)

lemma minus_one_times: "map (\<lambda>x. - 1 * x) ys = t_neg (ys :: vec)"
  by (simp add: t_neg_def)

lemma mse_directionInvariant_eq:
  "mse_directionInvariant y_true y_pred =
     and_then (broadcast (-) y_pred y_true)
       (\<lambda>d1. and_then (broadcast (-) (t_neg y_pred) y_true)
          (\<lambda>d2. Returns (min (K_mean (K_square d1)) (K_mean (K_square d2)))))"
  unfolding mse_directionInvariant_def minus_one_times ..

lemma mse_neg_pred:
  "mse_directionInvariant y_true (t_neg y_pred) = mse_directionInvariant y_true y_pred"
proof -
  let ?a = "broadcast (-) y_pred y_true"
  let ?b = "broadcast (-) (t_neg y_pred) y_true"
  have l: "mse_directionInvariant y_true (t_neg y_pred) =
      and_then ?b (\<lambda>d1. and_then ?a
        (\<lambda>d2. Returns (min (K_mean (K_square d1)) (K_mean (K_square d2)))))"
    unfolding mse_directionInvariant_def minus_one_times_t_neg ..
  have r: "mse_directionInvariant y_true y_pred =
      and_then ?a (\<lambda>d1. and_then ?b
        (\<lambda>d2. Returns (min (K_mean (K_square d1)) (K_mean (K_square d2)))))"
    by (rule mse_directionInvariant_eq)
  have raises: "returns ?a = returns ?b"
    by (simp add: broadcast_def t_neg_def)
  show ?thesis
  proof (cases ?a)
    case a: (Returns da)
    with raises obtain db where b: "?b = Returns db"
      by (cases ?b) auto
    show ?thesis
      unfolding l r a b by (simp add: min.commute)
  next
    case a: (Raises e)
    with raises obtain e' where b: "?b = Raises e'"
      by (cases ?b) auto
    have "e = ValueError" "e' = ValueError"
      using a b by (auto simp: broadcast_def split: if_splits)
    then show ?thesis
      unfolding l r a b by simp
  qed
qed

text \<open>
  C2. Both orientation-invariant losses are unchanged when an argument is negated:
  \<open>squared_cosine_proximity_2\<close> under negation of the prediction and under negation
  of the target, \<open>mse_directionInvariant\<close> under negation of the prediction. The
  equalities include the case in which the shapes do not broadcast and the backend
  raises: then both sides raise the same error.
\<close>

theorem C2_losses_sign_invariant:
  "squared_cosine_proximity_2 y_true y_pred = squared_cosine_proximity_2 y_true (t_neg y_pred)
   \<and> squared_cosine_proximity_2 y_true (t_neg y_pred) = squared_cosine_proximity_2 (t_neg y_true) y_pred
   \<and> mse_directionInvariant y_true y_pred = mse_directionInvariant y_true (t_neg y_pred)"
  by (simp add: scp2_neg_pred scp2_neg_true mse_neg_pred)

section \<open>Properties of the data container\<close>

subsection \<open>Rounding\<close>



lemma round_half_even_int: "round_half_even (real_of_int m) = m"
  by (simp add: round_half_even_def)

text \<open>A number with a significand of at most 53 bits is stored as it is.\<close>

lemma binary64_representable:
  assumes x: "x = real_of_int m * 2 powr real_of_int k" and m: "\<bar>m\<bar> < 2 ^ 53"
  shows "binary64 x = x"
proof (cases "m = 0")
  case True
  with x show ?thesis by (simp add: binary64_def)
next
  case False
  then have x0: "x \<noteq> 0" using x by simp
  define e where "e = \<lfloor>log 2 \<bar>x\<bar>\<rfloor>"
  have ax: "\<bar>x\<bar> = real_of_int \<bar>m\<bar> * 2 powr real_of_int k"
    using x by (simp add: abs_mult)
  have "real_of_int e \<le> log 2 \<bar>x\<bar>"
    by (simp add: e_def)
  then have lo: "2 powr real_of_int e \<le> \<bar>x\<bar>"
    using x0 by (simp add: le_log_iff)
  have "real_of_int \<bar>m\<bar> < 2 ^ 53"
    using m by (metis of_int_less_numeral_power_cancel_iff)
  then have "\<bar>x\<bar> < 2 ^ 53 * 2 powr real_of_int k"
    unfolding ax by (simp add: mult_strict_right_mono)
  also have "\<dots> = 2 powr (real_of_int (53 + k))"
    by (simp add: powr_add powr_numeral)
  finally have "2 powr real_of_int e < 2 powr real_of_int (53 + k)"
    using lo by linarith
  then have "e < 53 + k"
    by simp
  then have "0 \<le> k - e + 52"
    by simp
  then obtain n :: nat where n: "int n = k - e + 52"
    using nonneg_int_cases by metis
  have "x / 2 powr (real_of_int e - 52)
        = real_of_int m * 2 powr (real_of_int k - (real_of_int e - 52))"
    unfolding x by (simp add: powr_diff)
  also have "real_of_int k - (real_of_int e - 52) = real n"
    using n by linarith
  also have "(2::real) powr real n = 2 ^ n"
    by (simp add: powr_realpow)
  finally have q: "x / 2 powr (real_of_int e - 52) = real_of_int (m * 2 ^ n)"
    by simp
  have "binary64 x = real_of_int (round_half_even (x / 2 powr (real_of_int e - 52)))
          * 2 powr (real_of_int e - 52)"
    using x0 by (simp add: binary64_def Let_def e_def)
  also have "\<dots> = x / 2 powr (real_of_int e - 52) * 2 powr (real_of_int e - 52)"
    unfolding q round_half_even_int ..
  also have "\<dots> = x"
    by simp
  finally show ?thesis .
qed

lemma binary64_dyadic:
  assumes "\<bar>m\<bar> < 2 ^ 53"
  shows "binary64 (real_of_int m / 2 ^ n) = real_of_int m / 2 ^ n"
  using assms
  by (intro binary64_representable[where m = m and k = "- int n"])
    (simp_all add: powr_minus powr_realpow inverse_eq_divide)

lemma binary64_zero: "binary64 0 = 0"
  by (simp add: binary64_def)

lemma binary64_numeral:
  "(numeral n :: int) < 2 ^ 53 \<Longrightarrow> binary64 (numeral n) = numeral n"
  using binary64_dyadic[of "numeral n" 0] by simp

lemma binary64_one: "binary64 1 = 1"
  using binary64_dyadic[of 1 0] by simp

lemma binary64_half: "binary64 (1 / 2) = 1 / 2"
  using binary64_dyadic[of 1 1] by simp

lemma binary64_neg_half: "binary64 (- (1 / 2)) = - (1 / 2)"
  using binary64_dyadic[of "- 1" 1] by simp

lemma binary64_numeral_half:
  "(numeral n :: int) < 2 ^ 53 \<Longrightarrow> binary64 (numeral n / 2) = numeral n / 2"
  using binary64_dyadic[of "numeral n" 1] by simp

lemmas binary64_small =
  binary64_zero binary64_one binary64_half binary64_neg_half binary64_numeral
  binary64_numeral_half

subsection \<open>Coordinate conversion\<close>






lemma scale3_scale3: "scale3 s (scale3 t p) = scale3 (s * t) p"
  by (cases p) simp






lemma inverse_affine_exists: "det3 (rzs a) \<noteq> 0 \<Longrightarrow> \<exists>a'. inverse_affine a = Some a'"
  by (simp add: inverse_affine_def Let_def)


lemma apply_affine_shape:
  "lead (apply_affine a pts) = lead pts"
  "length (coords (apply_affine a pts)) = length (coords pts)"
  by (simp_all add: apply_affine_def)

lemma to_ijk_raises:
  "np_linalg_inv E (aff (data self)) = Raises e \<Longrightarrow> to_ijk E self pts = (Raises e, self)"
  by (simp add: to_ijk_def)

lemma to_ijk_unchanged: "to_ijk E self pts = (r, s) \<Longrightarrow> s = self"
  by (auto simp: to_ijk_def split: outcome.splits)



lemma ex_inverse:
  "inverse_affine ex_affine
     = Some \<lparr>rzs = ((1 / 2, 0, 0), (0, 1 / 2, 0), (0, 0, 1 / 2)),
             trans = (- (1 / 2), - (1 / 2), - (1 / 2))\<rparr>"
  by (simp add: inverse_affine_def ex_affine_def)

lemma ex_linalg_inv:
  "np_linalg_inv ex_env ex_affine
     = Returns \<lparr>rzs = ((1 / 2, 0, 0), (0, 1 / 2, 0), (0, 0, 1 / 2)),
                trans = (- (1 / 2), - (1 / 2), - (1 / 2))\<rparr>"
  by (simp add: ex_env_def rounded_inverse_def ex_inverse round_affine_def binary64_small)

lemma ex_to_ijk:
  "to_ijk ex_env ex3_container \<lparr>lead = [2], coords = [(1, 1, 1), (2, 3, 1)]\<rparr>
     = (Returns \<lparr>lead = [2], coords = [(0, 0, 0), (1 / 2, 1, 0)]\<rparr>, ex3_container)"
proof -
  have "aff (data ex3_container) = ex_affine"
    by (simp add: ex3_container_def)
  then show ?thesis
    by (simp add: to_ijk_def ex_linalg_inv apply_affine_def binary64_small)
qed











subsection \<open>Interpolation\<close>

text \<open>The cell index and its upper neighbour are indices Python accepts.\<close>

lemma find_index_range:
  assumes "0 < n"
  shows "- int n \<le> find_index n x \<and> find_index n x + 1 < int n"
  using assms by (auto simp: find_index_def searchsorted_def Let_def)

lemma find_index_cell_range:
  assumes "2 \<le> n"
  shows "0 \<le> find_index n x \<and> find_index n x + 1 < int n"
  using assms by (auto simp: find_index_def searchsorted_def Let_def)

lemma find_index_single: "find_index (Suc 0) x = - 1"
  by (simp add: find_index_def searchsorted_def Let_def)

lemma py_index_returns:
  assumes "- int n \<le> k" and "k < int n"
  shows "\<exists>a. py_index n k = Returns a \<and> a < n"
  using assms by (auto simp: py_index_def)

lemma py_index_nat: "i < n \<Longrightarrow> py_index n (int i) = Returns i"
  by (simp add: py_index_def)

lemma flat_index_less:
  fixes a b c :: nat
  assumes "a < A" and "b < B" and "c < C"
  shows "(a * B + b) * C + c < A * B * C"
proof -
  have "a * B + b < A * B"
  proof -
    have "a * B + b < a * B + B" using assms by simp
    also have "\<dots> = Suc a * B" by simp
    also have "\<dots> \<le> A * B" using assms by (intro mult_le_mono1) simp
    finally show ?thesis .
  qed
  then have "Suc (a * B + b) \<le> A * B" by simp
  then have "Suc (a * B + b) * C \<le> A * B * C" by (rule mult_le_mono1)
  moreover have "(a * B + b) * C + c < Suc (a * B + b) * C" using assms by simp
  ultimately show ?thesis by linarith
qed

lemma vox_at_returns:
  assumes "wf_volume v" and "- int (dim_x v) \<le> i" and "i < int (dim_x v)"
    and "- int (dim_y v) \<le> j" and "j < int (dim_y v)"
    and "- int (dim_z v) \<le> k" and "k < int (dim_z v)"
  shows "\<exists>u. vox_at v (i, j, k) = Returns u"
proof -
  from py_index_returns[OF assms(2,3)] obtain a where a: "py_index (dim_x v) i = Returns a"
    "a < dim_x v" by blast
  from py_index_returns[OF assms(4,5)] obtain b where b: "py_index (dim_y v) j = Returns b"
    "b < dim_y v" by blast
  from py_index_returns[OF assms(6,7)] obtain c where c: "py_index (dim_z v) k = Returns c"
    "c < dim_z v" by blast
  have "(a * dim_y v + b) * dim_z v + c < dim_x v * dim_y v * dim_z v"
    using a b c by (intro flat_index_less) auto
  with assms(1) a b c show ?thesis
    by (simp add: vox_at_def wf_volume_def)
qed

lemma evaluate_linear_returns:
  assumes "list_all (\<lambda>e. returns (vox_at v e)) es"
  shows "returns (evaluate_linear v idx nd es acc)"
  using assms
proof (induction es arbitrary: acc)
  case Nil
  then show ?case by simp
next
  case (Cons e es)
  then obtain u where "vox_at v e = Returns u"
    by (cases "vox_at v e") auto
  with Cons show ?case by simp
qed

text \<open>On a grid with a sample on every axis the weighted sum returns a value.\<close>

lemma interpolate_point_returns:
  assumes "wf_volume v" and "0 < dim_x v" and "0 < dim_y v" and "0 < dim_z v"
  shows "returns (interpolate_point v p)"
proof -
  obtain x y z where p: "p = (x, y, z)" by (metis prod_cases3)
  note r = find_index_range[OF assms(2), of x] find_index_range[OF assms(3), of y]
    find_index_range[OF assms(4), of z]
  have "returns (vox_at v (i, j, k))"
    if "- int (dim_x v) \<le> i" "i < int (dim_x v)" "- int (dim_y v) \<le> j" "j < int (dim_y v)"
      "- int (dim_z v) \<le> k" "k < int (dim_z v)"
    for i j k
    using vox_at_returns[OF assms(1) that] by auto
  then have "list_all (\<lambda>e. returns (vox_at v e))
     (corners (find_index (dim_x v) x, find_index (dim_y v) y, find_index (dim_z v) z))"
    using r by (simp add: corners_def)
  then show ?thesis
    unfolding p by (simp add: interpolate_point_def Let_def evaluate_linear_returns)
qed

lemma map_outcome_returns:
  assumes "list_all (\<lambda>x. returns (f x)) xs"
  shows "\<exists>ys. map_outcome f xs = Returns ys \<and> length ys = length xs"
  using assms
proof (induction xs)
  case Nil
  then show ?case by simp
next
  case (Cons x xs)
  then obtain y ys where "f x = Returns y" "map_outcome f xs = Returns ys"
    "length ys = length xs"
    by (cases "f x") auto
  then show ?case by simp
qed

text \<open>The bounds check passes exactly on the points inside a grid that has samples.\<close>

lemma point_in_bounds_axes:
  "list_all (point_in_bounds v) xi \<longleftrightarrow>
     list_all (in_bounds (dim_x v)) (map (\<lambda>p. case p of (x, y, z) \<Rightarrow> x) xi)
     \<and> list_all (in_bounds (dim_y v)) (map (\<lambda>p. case p of (x, y, z) \<Rightarrow> y) xi)
     \<and> list_all (in_bounds (dim_z v)) (map (\<lambda>p. case p of (x, y, z) \<Rightarrow> z) xi)"
  by (induction xi) (auto simp: point_in_bounds_def)

lemma check_bounds_returns: "check_bounds v xi = Returns u \<longleftrightarrow> inside_grid v xi"
  by (simp add: check_bounds_def axis_check_def inside_grid_def point_in_bounds_axes)

lemma check_bounds_inside:
  assumes "inside_grid v xi"
  shows "check_bounds v xi = Returns ()"
  using assms by (simp add: check_bounds_returns)

lemma check_bounds_outside:
  assumes "0 < dim_x v" and "0 < dim_y v" and "0 < dim_z v"
    and "\<not> list_all (point_in_bounds v) xi"
  shows "check_bounds v xi = Raises ValueError"
  using assms by (auto simp: check_bounds_def axis_check_def point_in_bounds_axes)

text \<open>A grid without a sample on its first axis takes no array of points, not even an empty one.\<close>

lemma check_bounds_empty_axis:
  "dim_x v = 0 \<Longrightarrow> interpolator_call v xi = Raises IndexError"
  by (simp add: interpolator_call_def check_bounds_def axis_check_def)

lemma interpolator_call_returns:
  assumes "wf_volume v" and "inside_grid v xi"
  shows "\<exists>raw. interpolator_call v xi = Returns raw \<and> length raw = length xi
          \<and> map_outcome (interpolate_point v) xi = Returns raw"
proof -
  from assms have "list_all (\<lambda>p. returns (interpolate_point v p)) xi"
    by (auto simp: list_all_iff inside_grid_def interpolate_point_returns)
  from map_outcome_returns[OF this] check_bounds_inside[OF assms(2)] show ?thesis
    by (auto simp: interpolator_call_def)
qed

text \<open>A point outside the grid makes the whole call raise, whatever the hook.\<close>

lemma get_interpolated_dwi_out_of_bounds:
  assumes "to_ijk E self pts = (Returns ijk, s)"
    and "0 < dim_x (interpolator self)" and "0 < dim_y (interpolator self)"
    and "0 < dim_z (interpolator self)"
    and "\<not> list_all (point_in_bounds (interpolator self)) (coords ijk)"
  shows "get_interpolated_dwi E self pts postprocessing = (Raises ValueError, self)"
proof -
  from assms(1) have "s = self"
    by (rule to_ijk_unchanged)
  with assms(1) check_bounds_outside[OF assms(2-5)] show ?thesis
    by (simp add: get_interpolated_dwi_def interpolator_call_def)
qed

lemma get_interpolated_dwi_no_inverse:
  assumes "np_linalg_inv E (aff (data self)) = Raises e"
  shows "get_interpolated_dwi E self pts postprocessing = (Raises e, self)"
  using assms by (simp add: get_interpolated_dwi_def to_ijk_raises)

text \<open>
  C1, as the code has it. Let \<open>to_ijk\<close> return the index coordinates \<open>ijk\<close> of the
  points (\<open>np.linalg.inv\<close> returned an inverse of the affine). Let the interpolator
  be the one built from the container's \<open>dwi\<close>, as it is after the constructor and
  after every \<open>crop\<close> and \<open>normalize\<close> that returned; let \<open>dwi\<close> be an array of its
  shape with a sample on every axis, and let every point of \<open>ijk\<close> lie inside the
  grid. Then the interpolator returns a row for every point, the multi-linear
  interpolation of \<open>dwi\<close> at that point of \<open>ijk\<close>. Without a hook the call returns
  these rows in the shape of the points with \<open>dwi.shape[-1]\<close> last, and the container
  is the one before the call. With a hook the call returns what the hook returns for
  that array and the container's \<open>b0\<close>, \<open>bvecs\<close> and \<open>bvals\<close>, and the container
  is as the hook leaves it.
\<close>

theorem C1_interpolation_inside_grid:
  assumes ijk: "to_ijk E self pts = (Returns ijk, s)"
    and built: "interpolator self = RegularGridInterpolator (dwi (data self))"
    and shape: "wf_volume (dwi (data self))"
    and inside: "inside_grid (dwi (data self)) (coords ijk)"
  shows "\<exists>raw. map_outcome (interpolate_point (dwi (data self))) (coords ijk) = Returns raw
      \<and> length raw = length (coords pts)
      \<and> get_interpolated_dwi E self pts None =
          (Returns \<lparr>s_lead = lead pts, s_last = channels (dwi (data self)), s_rows = raw\<rparr>,
           self)
      \<and> get_interpolated_dwi E self pts (Some f) =
          f self \<lparr>s_lead = lead pts, s_last = channels (dwi (data self)), s_rows = raw\<rparr>
            (b0 (data self)) (bvecs (data self)) (bvals (data self))"
proof -
  from ijk have s: "s = self"
    by (rule to_ijk_unchanged)
  from ijk have l: "lead ijk = lead pts" "length (coords ijk) = length (coords pts)"
    by (auto simp: to_ijk_def apply_affine_shape split: outcome.splits)
  from interpolator_call_returns[OF shape inside] obtain raw where
    raw: "interpolator_call (dwi (data self)) (coords ijk) = Returns raw"
      "length raw = length (coords ijk)"
      "map_outcome (interpolate_point (dwi (data self))) (coords ijk) = Returns raw"
    by blast
  show ?thesis
    using raw l by (simp add: get_interpolated_dwi_def ijk s built RegularGridInterpolator_def)
qed

lemma ex3_interpolated:
  "map_outcome (interpolate_point ex3_volume) [(0, 0, 0), (1 / 2, 1, 0)]
     = Returns [[4, 8, 6], [3 / 2, 1, 2]]"
proof -
  have c: "\<lceil>1 / 2 :: real\<rceil> = 1"
    by (simp add: ceiling_eq_iff)
  show ?thesis
    by (simp add: interpolate_point_def find_index_def searchsorted_def ex3_volume_def
        corners_def vox_at_def py_index_def norm_distance_def grid_at_def weight_def
        axis_weight_def v_add_def v_scale_def Let_def c numeral_3_eq_3)
qed

lemma ex3_at_origin: "interpolator_call ex3_volume [(0, 0, 0)] = Returns [[4, 8, 6]]"
  by (simp add: interpolator_call_def check_bounds_def axis_check_def in_bounds_def
      interpolate_point_def find_index_def searchsorted_def ex3_volume_def
      corners_def vox_at_def py_index_def norm_distance_def grid_at_def weight_def
      axis_weight_def v_add_def v_scale_def Let_def numeral_3_eq_3)

theorem C1_interpolation_inside_grid_witness:
  "to_ijk ex_env ex3_container \<lparr>lead = [2], coords = [(1, 1, 1), (2, 3, 1)]\<rparr>
     = (Returns \<lparr>lead = [2], coords = [(0, 0, 0), (1 / 2, 1, 0)]\<rparr>, ex3_container)
   \<and> interpolator ex3_container = RegularGridInterpolator (dwi (data ex3_container))
   \<and> wf_volume (dwi (data ex3_container))
   \<and> inside_grid (dwi (data ex3_container)) [(0, 0, 0), (1 / 2, 1, 0)]
   \<and> get_interpolated_dwi ex_env ex3_container
        \<lparr>lead = [2], coords = [(1, 1, 1), (2, 3, 1)]\<rparr> None
       = (Returns \<lparr>s_lead = [2], s_last = 3, s_rows = [[4, 8, 6], [3 / 2, 1, 2]]\<rparr>,
          ex3_container)
   \<and> get_interpolated_dwi ex_env ex3_container
        \<lparr>lead = [2], coords = [(1, 1, 1), (2, 3, 1)]\<rparr>
        (Some (\<lambda>self r b vs bs.
           (Returns (r\<lparr>s_rows := map (map2 (\<lambda>x y. y * x) bs) (s_rows r)\<rparr>), self)))
       = (Returns \<lparr>s_lead = [2], s_last = 3,
                    s_rows = [[0, 8000, 6000], [0, 1000, 2000]]\<rparr>,
          ex3_container)"
proof -
  let ?pts = "\<lparr>lead = [2], coords = [(1, 1, 1), (2, 3, 1)]\<rparr> :: points"
  let ?ijk = "\<lparr>lead = [2], coords = [(0, 0, 0), (1 / 2, 1, 0)]\<rparr> :: points"
  let ?f = "\<lambda>(self :: container) (r :: signals) (b :: real list) (vs :: vec3 list)
              (bs :: vec).
              (Returns (r\<lparr>s_rows := map (map2 (\<lambda>x y. y * x) bs) (s_rows r)\<rparr>), self)"
  note 1 = ex_to_ijk
  have 2: "interpolator ex3_container = RegularGridInterpolator (dwi (data ex3_container))"
    by (simp add: ex3_container_def RegularGridInterpolator_def)
  have 3: "wf_volume (dwi (data ex3_container))"
    by (simp add: ex3_container_def wf_volume_def ex3_volume_def)
  have 4: "inside_grid (dwi (data ex3_container)) (coords ?ijk)"
    by (simp add: ex3_container_def inside_grid_def point_in_bounds_def in_bounds_def
        ex3_volume_def)
  have 5: "dwi (data ex3_container) = ex3_volume" "channels ex3_volume = 3"
    "bvals (data ex3_container) = [0, 1000, 1000]"
    by (simp_all add: ex3_container_def ex3_volume_def)
  from C1_interpolation_inside_grid[OF 1 2 3 4, of ?f]
  obtain raw where
    r: "map_outcome (interpolate_point (dwi (data ex3_container))) (coords ?ijk) = Returns raw"
    and g: "get_interpolated_dwi ex_env ex3_container ?pts None =
          (Returns \<lparr>s_lead = lead ?pts, s_last = channels (dwi (data ex3_container)),
             s_rows = raw\<rparr>, ex3_container)"
    and h: "get_interpolated_dwi ex_env ex3_container ?pts (Some ?f) =
          ?f ex3_container \<lparr>s_lead = lead ?pts, s_last = channels (dwi (data ex3_container)),
             s_rows = raw\<rparr>
             (b0 (data ex3_container)) (bvecs (data ex3_container))
             (bvals (data ex3_container))"
    by blast
  from r have raw: "raw = [[4, 8, 6], [3 / 2, 1, 2]]"
    by (simp only: 5 points.simps ex3_interpolated outcome.inject)
  show ?thesis
    using 1 2 3 4 g h by (simp add: 5 raw)
qed

text \<open>
  C1 as stated speaks of every array of points, and of a call that never changes the
  container. The point \<open>(7, 1, 1)\<close> has the index coordinates
  \<open>(3, 0, 0)\<close> in the 2x2x2 grid of the small container: the call raises
  \<open>ValueError\<close> and returns no interpolation. And a hook that sets the \<open>b0\<close>
  array it is handed to zero (\<open>b0[:] = 0\<close>) leaves the container with that
  \<open>b0\<close>.
\<close>

theorem C1_out_of_grid_counterexample:
  "fst (to_ijk ex_env ex3_container \<lparr>lead = [1], coords = [(7, 1, 1)]\<rparr>)
     = Returns \<lparr>lead = [1], coords = [(3, 0, 0)]\<rparr>
   \<and> get_interpolated_dwi ex_env ex3_container \<lparr>lead = [1], coords = [(7, 1, 1)]\<rparr> None
     = (Raises ValueError, ex3_container)
   \<and> get_interpolated_dwi ex_env ex3_container \<lparr>lead = [], coords = [(1, 1, 1)]\<rparr>
        (Some (\<lambda>self r b vs bs.
           (Returns r, self\<lparr>data := (data self)\<lparr>b0 := map (\<lambda>x. 0) b\<rparr>\<rparr>)))
     = (Returns \<lparr>s_lead = [], s_last = 3, s_rows = [[4, 8, 6]]\<rparr>,
        ex3_container\<lparr>data := (data ex3_container)\<lparr>b0 := [0, 0, 0, 0, 0, 0, 0, 0]\<rparr>\<rparr>)
   \<and> ex3_container\<lparr>data := (data ex3_container)\<lparr>b0 := [0, 0, 0, 0, 0, 0, 0, 0]\<rparr>\<rparr>
     \<noteq> ex3_container"
proof -
  have a: "aff (data ex3_container) = ex_affine"
    by (simp add: ex3_container_def)
  have 1: "to_ijk ex_env ex3_container \<lparr>lead = [1], coords = [(7, 1, 1)]\<rparr>
     = (Returns \<lparr>lead = [1], coords = [(3, 0, 0)]\<rparr>, ex3_container)"
    by (simp add: to_ijk_def a ex_linalg_inv apply_affine_def binary64_small)
  have 2: "get_interpolated_dwi ex_env ex3_container \<lparr>lead = [1], coords = [(7, 1, 1)]\<rparr>
       None = (Raises ValueError, ex3_container)"
    by (rule get_interpolated_dwi_out_of_bounds[OF 1])
      (simp_all add: ex3_container_def ex3_volume_def point_in_bounds_def in_bounds_def)
  have 3: "to_ijk ex_env ex3_container \<lparr>lead = [], coords = [(1, 1, 1)]\<rparr>
     = (Returns \<lparr>lead = [], coords = [(0, 0, 0)]\<rparr>, ex3_container)"
    by (simp add: to_ijk_def a ex_linalg_inv apply_affine_def binary64_small)
  note 4 = ex3_at_origin
  have 5: "interpolator ex3_container = ex3_volume" "dwi (data ex3_container) = ex3_volume"
    "channels ex3_volume = 3" "b0 (data ex3_container) = [4, 4, 2, 2, 8, 8, 1, 1]"
    by (simp_all add: ex3_container_def ex3_volume_def)
  have 6: "get_interpolated_dwi ex_env ex3_container \<lparr>lead = [], coords = [(1, 1, 1)]\<rparr>
        (Some (\<lambda>self r b vs bs.
           (Returns r, self\<lparr>data := (data self)\<lparr>b0 := map (\<lambda>x. 0) b\<rparr>\<rparr>)))
     = (Returns \<lparr>s_lead = [], s_last = 3, s_rows = [[4, 8, 6]]\<rparr>,
        ex3_container\<lparr>data := (data ex3_container)\<lparr>b0 := [0, 0, 0, 0, 0, 0, 0, 0]\<rparr>\<rparr>)"
    by (simp add: get_interpolated_dwi_def 3 4 5)
  have 7: "ex3_container\<lparr>data := (data ex3_container)\<lparr>b0 := [0, 0, 0, 0, 0, 0, 0, 0]\<rparr>\<rparr>
     \<noteq> ex3_container"
  proof
    assume "ex3_container\<lparr>data := (data ex3_container)\<lparr>b0 := [0, 0, 0, 0, 0, 0, 0, 0]\<rparr>\<rparr>
      = ex3_container"
    then have "b0 (data (ex3_container\<lparr>data := (data ex3_container)
                 \<lparr>b0 := [0, 0, 0, 0, 0, 0, 0, 0]\<rparr>\<rparr>)) = b0 (data ex3_container)"
      by simp
    then show False
      by (simp add: 5)
  qed
  from 1 2 6 7 show ?thesis
    by simp
qed

text \<open>
  On a grid with a single sample on an axis the interpolator returns values: both
  corners along that axis are the one sample.
\<close>

lemma ex_slab_interpolated:
  "interpolator_call ex_slab [(0, 1 / 2, 1), (0, 0, 0)] = Returns [[3, 2], [4, 8]]"
proof -
  have c: "\<lceil>1 / 2 :: real\<rceil> = 1"
    by (simp add: ceiling_eq_iff)
  show ?thesis
    by (simp add: interpolator_call_def check_bounds_def axis_check_def in_bounds_def
        interpolate_point_def find_index_def searchsorted_def ex_slab_def
        corners_def vox_at_def py_index_def norm_distance_def grid_at_def weight_def
        axis_weight_def v_add_def v_scale_def Let_def c numeral_2_eq_2)
qed

text \<open>
  What makes the values a multi-linear interpolation: the distance from the lower edge
  of the cell found for an in-grid coordinate lies between 0 and 1, the eight weights
  are non-negative there and sum to one.
\<close>

lemma norm_distance_cell:
  assumes "2 \<le> n"
  shows "norm_distance n (find_index n x) x = x - real_of_int (find_index n x)"
  using find_index_cell_range[OF assms, of x]
  by (simp add: norm_distance_def grid_at_def Let_def)

lemma norm_distance_single: "norm_distance (Suc 0) (find_index (Suc 0) x) x = 0"
  using find_index_single[of x] by (simp add: norm_distance_def grid_at_def)

lemma find_index_cell:
  assumes "2 \<le> n" and "in_bounds n x"
  shows "0 \<le> x - real_of_int (find_index n x) \<and> x - real_of_int (find_index n x) \<le> 1"
proof -
  from assms have x: "0 \<le> x" "x \<le> real n - 1"
    by (auto simp: in_bounds_def)
  show ?thesis
  proof (cases "x \<le> 0")
    case True
    with x assms show ?thesis
      by (simp add: find_index_def searchsorted_def)
  next
    case False
    then have pos: "0 < x" by simp
    then have c: "1 \<le> \<lceil>x\<rceil>" by linarith
    have "x \<le> real_of_int (int n - 1)"
      using x by simp
    then have "\<lceil>x\<rceil> \<le> int n - 1"
      by (rule ceiling_le)
    then have f: "find_index n x = \<lceil>x\<rceil> - 1"
      using pos c by (simp add: find_index_def searchsorted_def Let_def min_def)
    have "real_of_int \<lceil>x\<rceil> - 1 < x" "x \<le> real_of_int \<lceil>x\<rceil>"
      by linarith+
    then show ?thesis
      unfolding f by simp
  qed
qed

lemma norm_distance_unit:
  assumes "0 < n" and "in_bounds n x"
  shows "0 \<le> norm_distance n (find_index n x) x \<and> norm_distance n (find_index n x) x \<le> 1"
proof (cases "n = 1")
  case True
  then show ?thesis
    by (simp add: norm_distance_single)
next
  case False
  with assms(1) have n: "2 \<le> n" by simp
  from find_index_cell[OF n assms(2)] show ?thesis
    by (simp add: norm_distance_cell[OF n])
qed

lemma weights_sum_to_one:
  "sum_list (map (weight (i, j, k) (a, b, c)) (corners (i, j, k))) = 1"
  by (simp add: corners_def weight_def axis_weight_def algebra_simps)

lemma weight_nonneg:
  assumes "0 \<le> a" "a \<le> 1" "0 \<le> b" "b \<le> 1" "0 \<le> c" "c \<le> 1"
  shows "0 \<le> weight (i, j, k) (a, b, c) e"
proof -
  obtain ei ej ek where e: "e = (ei, ej, ek)" by (metis prod_cases3)
  have "0 \<le> axis_weight ei i a" "0 \<le> axis_weight ej j b" "0 \<le> axis_weight ek k c"
    using assms by (simp_all add: axis_weight_def)
  then show ?thesis
    unfolding e by (simp add: weight_def)
qed

lemma v_add_zero_weight:
  "length u = length acc \<Longrightarrow> v_add acc (v_scale 0 u) = acc"
  by (induction acc arbitrary: u) (auto simp: v_add_def v_scale_def length_Suc_conv)

lemma v_add_zeros_unit:
  "length u = n \<Longrightarrow> v_add (replicate n 0) (v_scale 1 u) = u"
  by (induction u arbitrary: n) (auto simp: v_add_def v_scale_def)

lemma length_v_add: "length u = length acc \<Longrightarrow> length (v_add acc (v_scale s u)) = length acc"
  by (simp add: v_add_def v_scale_def)

lemma evaluate_linear_skip:
  assumes "list_all (\<lambda>e. \<exists>u. vox_at v e = Returns u \<and> length u = length acc
                        \<and> weight idx nd e = 0) es"
  shows "evaluate_linear v idx nd es acc = Returns acc"
  using assms
proof (induction es)
  case Nil
  then show ?case by simp
next
  case (Cons e es)
  then show ?case by (auto simp: v_add_zero_weight)
qed

lemma evaluate_linear_pick:
  assumes "distinct es" and "t \<in> set es" and "vox_at v t = Returns ut"
    and "length ut = n" and "weight idx nd t = 1"
    and "list_all (\<lambda>e. e = t \<or> (\<exists>u. vox_at v e = Returns u \<and> length u = n
                        \<and> weight idx nd e = 0)) es"
  shows "evaluate_linear v idx nd es (replicate n 0) = Returns ut"
  using assms(1,2,6)
proof (induction es)
  case Nil
  then show ?case by simp
next
  case (Cons e es)
  show ?case
  proof (cases "e = t")
    case True
    with Cons.prems have "t \<notin> set es" by simp
    with Cons.prems have "list_all (\<lambda>e. \<exists>u. vox_at v e = Returns u \<and> length u = length ut
                        \<and> weight idx nd e = 0) es"
      by (auto simp: list_all_iff assms(4))
    from evaluate_linear_skip[OF this] True assms show ?thesis
      by (simp add: v_add_zeros_unit)
  next
    case False
    with Cons.prems obtain u where u: "vox_at v e = Returns u" "length u = n" "weight idx nd e = 0"
      by auto
    from False Cons.prems have "t \<in> set es" "distinct es" by auto
    with Cons.IH Cons.prems have "evaluate_linear v idx nd es (replicate n 0) = Returns ut"
      by simp
    with u show ?thesis
      by (simp add: v_add_zero_weight)
  qed
qed

lemma find_index_grid:
  assumes "2 \<le> n" and "m < n"
  shows "find_index n (real m) = (if m = 0 then 0 else int m - 1)"
  using assms by (auto simp: find_index_def searchsorted_def Let_def min_def)

lemma axis_weight_grid:
  assumes "2 \<le> n" and "m < n" and "e = find_index n (real m) \<or> e = find_index n (real m) + 1"
  shows "axis_weight e (find_index n (real m)) (real m - real_of_int (find_index n (real m)))
           = (if e = int m then 1 else 0)"
  using assms by (auto simp: find_index_grid axis_weight_def split: if_splits)

lemma vox_at_grid:
  assumes "wf_volume v" and "i < dim_x v" and "j < dim_y v" and "k < dim_z v"
  shows "vox_at v (int i, int j, int k) = Returns (voxels v ! ((i * dim_y v + j) * dim_z v + k))"
proof -
  have "(i * dim_y v + j) * dim_z v + k < dim_x v * dim_y v * dim_z v"
    using assms by (intro flat_index_less) auto
  with assms show ?thesis
    by (simp add: vox_at_def py_index_nat wf_volume_def)
qed

text \<open>
  At a grid position of a grid with cells on every axis the interpolated value is the
  array's value there.
\<close>

lemma interpolate_point_at_grid_point:
  assumes wf: "wf_volume v"
    and d: "2 \<le> dim_x v" "2 \<le> dim_y v" "2 \<le> dim_z v"
    and len: "list_all (\<lambda>u. length u = channels v) (voxels v)"
    and i: "i < dim_x v" and j: "j < dim_y v" and k: "k < dim_z v"
  shows "interpolate_point v (real i, real j, real k)
           = Returns (voxels v ! ((i * dim_y v + j) * dim_z v + k))"
proof -
  from wf have n: "length (voxels v) = dim_x v * dim_y v * dim_z v"
    by (auto simp: wf_volume_def)
  let ?ci = "find_index (dim_x v) (real i)"
  let ?cj = "find_index (dim_y v) (real j)"
  let ?ck = "find_index (dim_z v) (real k)"
  let ?nd = "(real i - real_of_int ?ci, real j - real_of_int ?cj, real k - real_of_int ?ck)"
  let ?t = "(int i, int j, int k)"
  let ?ut = "voxels v ! ((i * dim_y v + j) * dim_z v + k)"
  have ci: "?ci = (if i = 0 then 0 else int i - 1)"
    and cj: "?cj = (if j = 0 then 0 else int j - 1)"
    and ck: "?ck = (if k = 0 then 0 else int k - 1)"
    using d i j k by (simp_all add: find_index_grid)
  have idx: "(i * dim_y v + j) * dim_z v + k < length (voxels v)"
    unfolding n using i j k by (intro flat_index_less) auto
  have ut: "vox_at v ?t = Returns ?ut"
    by (rule vox_at_grid[OF wf i j k])
  have lut: "length ?ut = channels v"
    using len idx by (simp add: list_all_length)
  have mem: "?t \<in> set (corners (?ci, ?cj, ?ck))"
    by (auto simp: corners_def ci cj ck)
  have dist: "distinct (corners (?ci, ?cj, ?ck))"
    by (simp add: corners_def)
  have wt: "weight (?ci, ?cj, ?ck) ?nd ?t = 1"
    using d i j k by (auto simp: weight_def axis_weight_def ci cj ck)
  have others: "e = ?t \<or> (\<exists>u. vox_at v e = Returns u \<and> length u = channels v
                        \<and> weight (?ci, ?cj, ?ck) ?nd e = 0)"
    if e: "e \<in> set (corners (?ci, ?cj, ?ck))" for e
  proof -
    obtain ei ej ek where eq: "e = (ei, ej, ek)" by (metis prod_cases3)
    from e eq have r: "ei = ?ci \<or> ei = ?ci + 1" "ej = ?cj \<or> ej = ?cj + 1" "ek = ?ck \<or> ek = ?ck + 1"
      by (auto simp: corners_def)
    then have b: "0 \<le> ei" "ei < int (dim_x v)" "0 \<le> ej" "ej < int (dim_y v)"
      "0 \<le> ek" "ek < int (dim_z v)"
      using d i j k by (auto simp: ci cj ck split: if_splits)
    have w: "weight (?ci, ?cj, ?ck) ?nd e
        = (if ei = int i then 1 else 0) * (if ej = int j then 1 else 0) * (if ek = int k then 1 else 0)"
      unfolding eq weight_def
      using axis_weight_grid[OF d(1) i r(1)] axis_weight_grid[OF d(2) j r(2)]
        axis_weight_grid[OF d(3) k r(3)]
      by simp
    show ?thesis
    proof (cases "e = ?t")
      case True
      then show ?thesis by simp
    next
      case False
      with eq w have z: "weight (?ci, ?cj, ?ck) ?nd e = 0" by auto
      have g: "vox_at v (int (nat ei), int (nat ej), int (nat ek))
             = Returns (voxels v ! ((nat ei * dim_y v + nat ej) * dim_z v + nat ek))"
        using b by (intro vox_at_grid[OF wf]) auto
      have "(nat ei * dim_y v + nat ej) * dim_z v + nat ek < length (voxels v)"
        unfolding n using b by (intro flat_index_less) auto
      then have "length (voxels v ! ((nat ei * dim_y v + nat ej) * dim_z v + nat ek)) = channels v"
        using len by (simp add: list_all_length)
      with g b z eq show ?thesis by simp
    qed
  qed
  then have all: "list_all (\<lambda>e. e = ?t \<or> (\<exists>u. vox_at v e = Returns u \<and> length u = channels v
                        \<and> weight (?ci, ?cj, ?ck) ?nd e = 0)) (corners (?ci, ?cj, ?ck))"
    by (simp add: list_all_iff)
  from evaluate_linear_pick[OF dist mem ut lut wt all] show ?thesis
    by (simp add: interpolate_point_def Let_def norm_distance_cell[OF d(1)]
        norm_distance_cell[OF d(2)] norm_distance_cell[OF d(3)])
qed

subsection \<open>Guards of \<open>crop\<close> and \<open>normalize\<close>\<close>

text \<open>
  None of the three exception classes the guards name is bound in the module, so the
  \<open>raise\<close> statements raise \<open>NameError\<close>.
\<close>

lemma raise_class_unbound:
  "raise_class ''DWIAlreadyCroppedError'' = NameError ''DWIAlreadyCroppedError''"
  "raise_class ''DWIAlreadyNormalizedError'' = NameError ''DWIAlreadyNormalizedError''"
  "raise_class ''DataContainerNotLoadableError'' = NameError ''DataContainerNotLoadableError''"
  by (simp_all add: raise_class_def module_names_def)

lemma crop_guard:
  assumes "cropped (opts self)" and "\<not> ignore_already_cropped"
  shows "crop E self b_value max_deviation ignore_already_cropped =
           (Raises (NameError ''DWIAlreadyCroppedError''), self)"
  using assms by (simp add: crop_def raise_class_unbound)

lemma normalize_guard_cropped:
  assumes "cropped (opts self)"
  shows "normalize self = (Raises (NameError ''DWIAlreadyCroppedError''), self)"
  using assms by (simp add: normalize_def raise_class_unbound)

lemma normalize_guard_normalized:
  assumes "\<not> cropped (opts self)" and "normalized (opts self)"
  shows "normalize self = (Raises (NameError ''DWIAlreadyNormalizedError''), self)"
  using assms by (simp add: normalize_def raise_class_unbound)

text \<open>The two flags are never reset: no call of \<open>crop\<close> or \<open>normalize\<close> clears one.\<close>

lemma crop_keeps_flags:
  assumes "crop E self b d ig = (r, s)"
  shows "(cropped (opts self) \<longrightarrow> cropped (opts s))
       \<and> (normalized (opts self) \<longrightarrow> normalized (opts s))"
  using assms by (auto simp: crop_def Let_def split: if_splits outcome.splits)

lemma normalize_keeps_flags:
  assumes "normalize self = (r, s)"
  shows "(cropped (opts self) \<longrightarrow> cropped (opts s))
       \<and> (normalized (opts self) \<longrightarrow> normalized (opts s))"
  using assms by (auto simp: normalize_def Let_def split: if_splits option.splits)

lemma crop_sets_cropped:
  assumes "crop E self b d ig = (Returns u, s)"
  shows "cropped (opts s)"
  using assms by (auto simp: crop_def Let_def split: if_splits outcome.splits)

lemma normalize_sets_normalized:
  assumes "normalize self = (Returns u, s)"
  shows "normalized (opts s)"
  using assms by (auto simp: normalize_def Let_def split: if_splits option.splits)

text \<open>A call that returns leaves the interpolator built from the new \<open>dwi\<close>.\<close>

lemma crop_rebuilds_interpolator:
  assumes "crop E self b d ig = (Returns u, s)"
  shows "interpolator s = RegularGridInterpolator (dwi (data s))"
  using assms by (auto simp: crop_def Let_def split: if_splits outcome.splits)

lemma normalize_rebuilds_interpolator:
  assumes "normalize self = (Returns u, s)"
  shows "interpolator s = RegularGridInterpolator (dwi (data s))"
  using assms by (auto simp: normalize_def Let_def split: if_splits option.splits)

lemma init_builds_interpolator:
  assumes "init E fs pth file_names denoise thr = Returns s"
  shows "interpolator s = RegularGridInterpolator (dwi (data s))
       \<and> \<not> cropped (opts s) \<and> \<not> normalized (opts s)"
proof -
  let ?r = "retrieve_data E fs (rstrip_sep pth) file_names
              (case denoise of None \<Rightarrow> cfg_denoise E | Some d \<Rightarrow> d)
              (case thr of None \<Rightarrow> cfg_b0_threshold E | Some t \<Rightarrow> t)"
  show ?thesis
  proof (cases ?r)
    case (Returns d)
    with assms show ?thesis
      by (auto simp: init_def Let_def)
  next
    case (Raises e)
    with assms show ?thesis
      by (simp add: init_def Let_def)
  qed
qed

text \<open>The \<open>b0\<close> image a loaded container holds has one entry per grid position.\<close>

lemma and_then_Returns:
  "and_then m f = Returns y \<longleftrightarrow> (\<exists>x. m = Returns x \<and> f x = Returns y)"
  by (cases m) simp_all

lemma mean_b0_length: "mean_b0 v bs thr = Returns b \<Longrightarrow> length b = length (voxels v)"
  by (auto simp: mean_b0_def split: if_splits)

lemma retrieve_data_b0_shape:
  assumes "retrieve_data E fs pth file_names denoise thr = Returns d"
  shows "length (b0 d) = length (voxels (dwi d))"
proof -
  from assms obtain v bs b where m: "mean_b0 v bs thr = Returns b" and d: "b0 d = b" "dwi d = v"
    by (auto simp: retrieve_data_def Let_def and_then_Returns
        split: outcome.splits exn.splits prod.splits)
  from mean_b0_length[OF m] d show ?thesis
    by simp
qed

lemma init_b0_shape:
  assumes "init E fs pth file_names denoise thr = Returns s"
  shows "length (b0 (data s)) = length (voxels (dwi (data s)))"
proof -
  let ?r = "retrieve_data E fs (rstrip_sep pth) file_names
              (case denoise of None \<Rightarrow> cfg_denoise E | Some d \<Rightarrow> d)
              (case thr of None \<Rightarrow> cfg_b0_threshold E | Some t \<Rightarrow> t)"
  show ?thesis
  proof (cases ?r)
    case (Returns d)
    with assms have "data s = d"
      by (auto simp: init_def Let_def)
    with retrieve_data_b0_shape[OF Returns] show ?thesis
      by simp
  next
    case (Raises e)
    with assms show ?thesis
      by (simp add: init_def Let_def)
  qed
qed

lemma ex_crop:
  "crop ex_env ex_container None None False =
     (Returns (),
      ex_container\<lparr>
        opts := (opts ex_container)
          \<lparr>cropped := True, crop_b := Some 1000, crop_max_deviation := Some 100\<rparr>,
        data := (data ex_container)
          \<lparr>bvals := [1000], bvecs := [(1, 0, 0)], gtab := ([1000], [(1, 0, 0)]),
           dwi := ex_volume\<lparr>channels := 1,
                    voxels := [[8], [2], [1], [2], [4], [2], [1], [0]]\<rparr>\<rparr>,
        id_str := ''DataContainerscan-b0thr-?-cropped[?, ?]'',
        interpolator := ex_volume\<lparr>channels := 1,
                    voxels := [[8], [2], [1], [2], [4], [2], [1], [0]]\<rparr>\<rparr>)"
  by (simp add: crop_def ex_container_def ex_env_def ex_volume_def ex_bvecs_def index_last_def
      dipy_gradient_table_def close_to_1_def RegularGridInterpolator_def upt_rec[of 0]
      upt_rec[of 1] upt_rec[of 2] Let_def)

text \<open>
  A crop that fails in \<open>gradient_table\<close>: the two volumes at b-value 1000 of the
  three-volume container make a table dipy refuses. The container is left with the
  cropped arrays and the interpolator of the array before the crop, and is not marked
  as cropped; interpolating with it fails in the last reshape.
\<close>

lemma ex3_half_cropped:
  "crop ex_env ex3_container None None False =
     (Raises ValueError,
      ex3_container\<lparr>
        data := (data ex3_container)
          \<lparr>bvals := [1000, 1000], bvecs := [(1, 0, 0), (0, 1, 0)],
           dwi := ex3_volume\<lparr>channels := 2,
                    voxels := [[8, 6], [2, 1], [1, 3], [2, 2], [4, 2], [2, 4], [1, 1], [0, 2]]\<rparr>\<rparr>\<rparr>)"
  by (simp add: crop_def ex3_container_def ex_env_def ex3_volume_def ex3_bvecs_def
      index_last_def dipy_gradient_table_def upt_rec[of 0] upt_rec[of 1] upt_rec[of 2]
      upt_rec[of 3] Let_def)

lemma ex3_half_cropped_interpolation:
  assumes "crop ex_env ex3_container None None False = (r, s)"
  shows "interpolator s \<noteq> RegularGridInterpolator (dwi (data s))
       \<and> get_interpolated_dwi ex_env s \<lparr>lead = [], coords = [(1, 1, 1)]\<rparr> None
           = (Raises ValueError, s)"
proof -
  from assms have s: "s = ex3_container\<lparr>
        data := (data ex3_container)
          \<lparr>bvals := [1000, 1000], bvecs := [(1, 0, 0), (0, 1, 0)],
           dwi := ex3_volume\<lparr>channels := 2,
                    voxels := [[8, 6], [2, 1], [1, 3], [2, 2], [4, 2], [2, 4], [1, 1], [0, 2]]\<rparr>\<rparr>\<rparr>"
    by (simp add: ex3_half_cropped)
  have i: "interpolator s = ex3_volume" "channels (dwi (data s)) = 2" "aff (data s) = ex_affine"
    "channels ex3_volume = 3"
    by (simp_all add: s ex3_container_def ex3_volume_def)
  have 1: "interpolator s \<noteq> RegularGridInterpolator (dwi (data s))"
  proof
    assume "interpolator s = RegularGridInterpolator (dwi (data s))"
    then have "channels (interpolator s) = channels (dwi (data s))"
      by (simp add: RegularGridInterpolator_def)
    then show False
      by (simp add: i)
  qed
  have 2: "to_ijk ex_env s \<lparr>lead = [], coords = [(1, 1, 1)]\<rparr>
     = (Returns \<lparr>lead = [], coords = [(0, 0, 0)]\<rparr>, s)"
    by (simp add: to_ijk_def i ex_linalg_inv apply_affine_def binary64_small)
  note 3 = ex3_at_origin
  have "get_interpolated_dwi ex_env s \<lparr>lead = [], coords = [(1, 1, 1)]\<rparr> None
           = (Raises ValueError, s)"
    by (simp add: get_interpolated_dwi_def 2 3 i)
  with 1 show ?thesis
    by simp
qed

text \<open>
  C5, evaluated. The small container is cropped once; cropping it again, and
  normalising it, raise \<open>NameError\<close> for the name \<open>DWIAlreadyCroppedError\<close>,
  not an instance of that class. The container normalised once and normalised again
  raises \<open>NameError\<close> for \<open>DWIAlreadyNormalizedError\<close>. In the three cases the
  container is left as it was before the failing call.
\<close>

theorem C5_guards_raise_NameError:
  "(\<exists>s. crop ex_env ex_container None None False = (Returns (), s)
       \<and> crop ex_env s None None False = (Raises (NameError ''DWIAlreadyCroppedError''), s)
       \<and> normalize s = (Raises (NameError ''DWIAlreadyCroppedError''), s))
   \<and> (\<exists>s. normalize ex_container = (Returns (), s)
       \<and> normalize s = (Raises (NameError ''DWIAlreadyNormalizedError''), s))"
proof -
  obtain s where s: "crop ex_env ex_container None None False = (Returns (), s)"
    using ex_crop by blast
  have c: "cropped (opts s)"
    using s by (rule crop_sets_cropped)
  have 1: "crop ex_env s None None False = (Raises (NameError ''DWIAlreadyCroppedError''), s)"
    using c by (simp add: crop_guard)
  have 2: "normalize s = (Raises (NameError ''DWIAlreadyCroppedError''), s)"
    using c by (rule normalize_guard_cropped)
  obtain t where t: "normalize ex_container = (Returns (), t)"
    by (simp add: normalize_def ex_container_def ex_volume_def nb_erroneous_def Let_def)
  have n: "normalized (opts t)" "\<not> cropped (opts t)"
    using t by (auto simp: normalize_def ex_container_def Let_def split: if_splits option.splits)
  have 3: "normalize t = (Raises (NameError ''DWIAlreadyNormalizedError''), t)"
    using n by (simp add: normalize_guard_normalized)
  from s 1 2 t 3 show ?thesis by blast
qed

subsection \<open>Normalising\<close>

lemma nb_erroneous_zero_iff:
  "nb_erroneous vs bs = 0 \<longleftrightarrow> \<not> list_ex (\<lambda>(u, b). list_ex (\<lambda>w. b < w) u) (zip vs bs)"
proof -
  have "length (filter (\<lambda>w. b < w) u) = 0 \<longleftrightarrow> \<not> list_ex (\<lambda>w. b < w) u" for u and b :: real
    by (simp add: list_ex_iff filter_empty_conv)
  then show ?thesis
    by (auto simp: nb_erroneous_def list_ex_iff)
qed

lemma clipped_quotients:
  "map (map (\<lambda>q. case q of None \<Rightarrow> 0 | Some r \<Rightarrow> r))
     (map2 (\<lambda>u b. map (\<lambda>w. np_divide w b) u) (map2 (\<lambda>u b. map (\<lambda>w. min w b) u) vs bs) bs)
   = map2 (\<lambda>u b. map (\<lambda>w. if b = 0 then 0 else min w b / b) u) vs bs"
proof (induction vs arbitrary: bs)
  case Nil
  then show ?case by simp
next
  case (Cons u vs)
  show ?case
  proof (cases bs)
    case Nil
    then show ?thesis by simp
  next
    case (Cons b bs')
    with Cons.IH[of bs'] show ?thesis
      by (simp add: np_divide_def comp_def)
  qed
qed

text \<open>
  C9. Take a container that is neither cropped nor normalised (its \<open>b0\<close> has one
  entry per grid position of \<open>dwi\<close>, as \<open>init\<close> computes it). If some value of some
  voxel is above the voxel's \<open>b0\<close>, \<open>normalize\<close> returns, and \<open>dwi\<close> then holds
  \<open>min(dwi, b0) / b0\<close>, with \<open>0\<close> where that quotient is not finite (where \<open>b0\<close>
  is \<open>0\<close>). If no value is above its \<open>b0\<close>, the local \<open>weights\<close> was never
  assigned: \<open>normalize\<close> raises a \<open>NameError\<close> (the \<open>UnboundLocalError\<close> for
  \<open>weights\<close>) and the container is as before.
\<close>

theorem C9_normalize:
  assumes "\<not> cropped (opts self)" and "\<not> normalized (opts self)"
    and "length (b0 (data self)) = length (voxels (dwi (data self)))"
  shows "(list_ex (\<lambda>(u, b). list_ex (\<lambda>w. b < w) u)
            (zip (voxels (dwi (data self))) (b0 (data self)))
            \<longrightarrow> (\<exists>s. normalize self = (Returns (), s)
                  \<and> voxels (dwi (data s)) =
                      map2 (\<lambda>u b. map (\<lambda>w. if b = 0 then 0 else min w b / b) u)
                        (voxels (dwi (data self))) (b0 (data self))
                  \<and> normalized (opts s)))
       \<and> (\<not> list_ex (\<lambda>(u, b). list_ex (\<lambda>w. b < w) u)
              (zip (voxels (dwi (data self))) (b0 (data self)))
            \<longrightarrow> normalize self = (Raises (UnboundLocalError ''weights''), self)
                \<and> is_NameError (UnboundLocalError ''weights''))"
proof (cases "nb_erroneous (voxels (dwi (data self))) (b0 (data self)) = 0")
  case True
  with assms have "normalize self = (Raises (UnboundLocalError ''weights''), self)"
    by (simp add: normalize_def)
  with True show ?thesis
    by (simp add: nb_erroneous_zero_iff)
next
  case False
  with assms have "\<exists>s. normalize self = (Returns (), s)
                  \<and> voxels (dwi (data s)) =
                      map2 (\<lambda>u b. map (\<lambda>w. if b = 0 then 0 else min w b / b) u)
                        (voxels (dwi (data self))) (b0 (data self))
                  \<and> normalized (opts s)"
    by (simp add: normalize_def Let_def clipped_quotients del: map_map)
  with False show ?thesis
    by (simp add: nb_erroneous_zero_iff)
qed

theorem C9_normalize_witness:
  "(\<exists>s. normalize ex_container = (Returns (), s)
      \<and> voxels (dwi (data s)) =
          [[1, 1], [1, 1 / 2], [1, 1 / 2], [1, 1], [1, 1 / 2], [1, 1 / 4], [1, 1], [1, 0]]
      \<and> normalized (opts s))
   \<and> normalize ex_quiet = (Raises (UnboundLocalError ''weights''), ex_quiet)"
proof -
  have 1: "\<not> cropped (opts ex_container)" "\<not> normalized (opts ex_container)"
    "length (b0 (data ex_container)) = length (voxels (dwi (data ex_container)))"
    by (simp_all add: ex_container_def ex_volume_def)
  have 2: "\<not> cropped (opts ex_quiet)" "\<not> normalized (opts ex_quiet)"
    "length (b0 (data ex_quiet)) = length (voxels (dwi (data ex_quiet)))"
    by (simp_all add: ex_quiet_def ex_container_def ex_volume_def)
  have 3: "list_ex (\<lambda>(u, b). list_ex (\<lambda>w. b < w) u)
             (zip (voxels (dwi (data ex_container))) (b0 (data ex_container)))"
    by (simp add: ex_container_def ex_volume_def)
  have 4: "\<not> list_ex (\<lambda>(u, b). list_ex (\<lambda>w. b < w) u)
             (zip (voxels (dwi (data ex_quiet))) (b0 (data ex_quiet)))"
    by (simp add: ex_quiet_def ex_container_def ex_volume_def)
  have 5: "map2 (\<lambda>u b. map (\<lambda>w. if b = 0 then 0 else min w b / b) u)
             (voxels (dwi (data ex_container))) (b0 (data ex_container))
        = [[1, 1], [1, 1 / 2], [1, 1 / 2], [1, 1], [1, 1 / 2], [1, 1 / 4], [1, 1], [1, 0]]"
    by (simp add: ex_container_def ex_volume_def)
  from C9_normalize[OF 1] 3 5 C9_normalize[OF 2] 4 show ?thesis by simp
qed

subsection \<open>Loading\<close>

lemma ex3_init: "init ex_env ex3_fs ''scan/'' ex_names None None = Returns ex3_container"
  by (simp add: init_def retrieve_data_def load_tried_def lookup_def ex_names_def
       rstrip_sep_def path_join_def read_bvals_bvecs_def nb_load_def ex3_fs_def ex_env_def
       Let_def dipy_gradient_table_def close_to_1_def ex3_bvecs_def ex3_container_def
       get_data_3d_def ex_t1_def ex3_volume_def mean_b0_def np_mean_def
       RegularGridInterpolator_def)

text \<open>The files of the two-volume image are refused: dipy takes no table of two gradients.\<close>

lemma ex_init_refused: "init ex_env ex_fs ''scan/'' ex_names None None = Raises ValueError"
  by (simp add: init_def retrieve_data_def load_tried_def lookup_def ex_names_def
       rstrip_sep_def path_join_def read_bvals_bvecs_def nb_load_def ex_fs_def ex_env_def
       Let_def dipy_gradient_table_def ex_bvecs_def)

text \<open>A failing load returns no container, whichever file is missing.\<close>

lemma init_missing_file_raises:
  assumes "load_tried fs (rstrip_sep pth) file_names = Raises (FileNotFoundError f)"
  shows "init E fs pth file_names denoise thr
           = Raises (NameError ''DataContainerNotLoadableError'')"
  using assms by (simp add: init_def retrieve_data_def Let_def raise_class_unbound)

text \<open>
  C6, evaluated. With a mask named in \<open>file_names\<close> and the mask file missing (the
  four other files are there, and \<open>gradient_table\<close> takes their three gradients),
  the constructor raises the \<open>FileNotFoundError\<close> of the loader: the mask is loaded
  outside the \<open>try\<close> block. With the b-value file missing, the handler's \<open>raise\<close>
  raises \<open>NameError\<close> for the name \<open>DataContainerNotLoadableError\<close>. Neither is a
  \<open>DataContainerNotLoadableError\<close>; both abort the construction.
\<close>

theorem C6_missing_file_errors:
  "init ex_env ex3_fs ''scan/'' ex_names_mask None None
     = Raises (FileNotFoundError ''scan/mask.nii.gz'')
   \<and> init ex_env (\<lambda>p. None) ''scan/'' ex_names None None
     = Raises (NameError ''DataContainerNotLoadableError'')"
proof -
  have 1: "init ex_env ex3_fs ''scan/'' ex_names_mask None None
     = Raises (FileNotFoundError ''scan/mask.nii.gz'')"
    by (simp add: init_def retrieve_data_def load_tried_def lookup_def ex_names_mask_def
        ex_names_def rstrip_sep_def path_join_def read_bvals_bvecs_def nb_load_def ex3_fs_def
        ex_env_def Let_def dipy_gradient_table_def close_to_1_def ex3_bvecs_def)
  have 2: "init ex_env (\<lambda>p. None) ''scan/'' ex_names None None
     = Raises (NameError ''DataContainerNotLoadableError'')"
    by (simp add: init_def retrieve_data_def load_tried_def lookup_def ex_names_def
        rstrip_sep_def path_join_def read_bvals_bvecs_def nb_load_def ex_env_def Let_def
        raise_class_unbound)
  from 1 2 show ?thesis by simp
qed

text \<open>With no b-value below the threshold the \<open>b0\<close> image would hold NaN.\<close>

lemma ex3_no_b0:
  "init ex_env ex3_fs ''scan/'' ex_names None (Some 0) = Raises (NotANumber ''b0'')"
  by (simp add: init_def retrieve_data_def load_tried_def lookup_def ex_names_def
       rstrip_sep_def path_join_def read_bvals_bvecs_def nb_load_def ex3_fs_def ex_env_def
       Let_def dipy_gradient_table_def close_to_1_def ex3_bvecs_def
       get_data_3d_def ex_t1_def ex3_volume_def mean_b0_def)

section \<open>Properties of the tracking engine\<close>

subsection \<open>Length filters\<close>

lemma filters_compose:
  "filterStreamlinesByMaxLength (filterStreamlinesByLength sls lo) hi
     = filter (\<lambda>sl. lo \<le> arc_length sl \<and> arc_length sl \<le> hi) sls"
  by (simp add: filterStreamlinesByMaxLength_def filterStreamlinesByLength_def not_less
      conj_commute)

text \<open>
  C4. The minimum-length filter followed by the maximum-length filter keeps exactly the
  streamlines whose arc length lies in \<open>[minLength, maxLength]\<close>, in their order, for
  every pair of bounds and so for 20 and 200. The three streamlines below have the arc
  lengths 5, 25 and 250; with the bounds 20 and 200 only the second is kept.
\<close>

theorem C4_length_filters:
  "filterStreamlinesByMaxLength (filterStreamlinesByLength sls lo) hi
     = filter (\<lambda>sl. lo \<le> arc_length sl \<and> arc_length sl \<le> hi) sls
   \<and> arc_length [(0, 0, 0), (3, 4, 0)] = 5
   \<and> arc_length [(0, 0, 0), (0, 0, 10), (0, 15, 10)] = 25
   \<and> arc_length [(0, 0, 0), (250, 0, 0)] = 250
   \<and> filterStreamlinesByMaxLength
        (filterStreamlinesByLength
           [[(0, 0, 0), (3, 4, 0)], [(0, 0, 0), (0, 0, 10), (0, 15, 10)],
            [(0, 0, 0), (250, 0, 0)]] 20) 200
      = [[(0, 0, 0), (0, 0, 10), (0, 15, 10)]]"
  by (simp add: filters_compose)

subsection \<open>Sign resolution\<close>

lemma dot3_self_nonneg: "0 \<le> dot3 v v"
  by (cases v) simp

lemma norm3_nonneg: "0 \<le> norm3 v"
  by (simp add: norm3_def dot3_self_nonneg)

lemma dot3_scale3_left: "dot3 (scale3 s v) w = s * dot3 v w"
  by (cases v; cases w) (simp add: algebra_simps)

lemma dot3_scale3_right: "dot3 v (scale3 s w) = s * dot3 v w"
  by (cases v; cases w) (simp add: algebra_simps)

lemma norm3_scale3: "norm3 (scale3 s v) = \<bar>s\<bar> * norm3 v"
  by (simp add: norm3_def dot3_scale3_left dot3_scale3_right real_sqrt_mult
      flip: mult.assoc)

lemma norm3_neg: "norm3 (scale3 (- 1) v) = norm3 v"
  by (simp add: norm3_scale3)

lemma normalize3_returns: "norm3 v \<noteq> 0 \<Longrightarrow> normalize3 v = Returns (scale3 (1 / norm3 v) v)"
  by (simp add: normalize3_def)

lemma normalize3_neg:
  "norm3 v \<noteq> 0 \<Longrightarrow> normalize3 (scale3 (- 1) v) = Returns (scale3 (- 1) (scale3 (1 / norm3 v) v))"
  by (simp add: normalize3_def norm3_neg scale3_scale3)

lemma normalize3_unit:
  assumes "normalize3 v = Returns u"
  shows "norm3 u = 1"
proof -
  from assms have n: "norm3 v \<noteq> 0" and u: "u = scale3 (1 / norm3 v) v"
    by (auto simp: normalize3_def split: if_splits)
  with norm3_nonneg[of v] show ?thesis
    by (simp add: norm3_scale3)
qed

lemma resolve_sign_degenerate:
  "norm3 raw \<le> eps \<Longrightarrow> resolve_sign eps prev raw = Returns NoViableDirection"
  by (simp add: resolve_sign_def)

lemma resolve_sign_first:
  assumes "0 \<le> eps" "eps < norm3 raw"
  shows "resolve_sign eps None raw = Returns (Resolved raw (scale3 (1 / norm3 raw) raw))"
  using assms by (simp add: resolve_sign_def normalize3_def)

lemma resolve_sign_prev:
  assumes "0 \<le> eps" "eps < norm3 raw"
  shows "resolve_sign eps (Some d) raw =
     Returns (if dot3 (scale3 (1 / norm3 raw) raw) d < 0
              then Resolved (scale3 (- 1) raw) (scale3 (- 1) (scale3 (1 / norm3 raw) raw))
              else Resolved raw (scale3 (1 / norm3 raw) raw))"
proof -
  from assms have n: "norm3 raw \<noteq> 0" by simp
  show ?thesis
    using assms by (simp add: resolve_sign_def normalize3_returns[OF n] normalize3_neg[OF n])
qed

lemma resolve_sign_returns:
  assumes "0 \<le> eps"
  shows "\<exists>res. resolve_sign eps prev raw = Returns res"
proof (cases "norm3 raw \<le> eps")
  case True
  then show ?thesis by (simp add: resolve_sign_degenerate)
next
  case False
  with assms show ?thesis
    by (cases prev) (simp_all add: resolve_sign_first resolve_sign_prev)
qed

lemma resolved_continuity:
  assumes "0 \<le> eps" "eps < norm3 raw" "resolve_sign eps (Some d) raw = Returns (Resolved r v)"
  shows "0 \<le> dot3 v d \<and> norm3 v = 1"
proof -
  from assms have n: "0 < norm3 raw" by simp
  have u: "norm3 (scale3 (1 / norm3 raw) raw) = 1"
    using n by (simp add: norm3_scale3)
  show ?thesis
  proof (cases "dot3 (scale3 (1 / norm3 raw) raw) d < 0")
    case True
    with assms(3) have "v = scale3 (- 1) (scale3 (1 / norm3 raw) raw)"
      unfolding resolve_sign_prev[OF assms(1,2)] by auto
    with True u show ?thesis
      by (simp only: norm3_neg dot3_scale3_left[of "- 1"]) simp
  next
    case False
    with assms(3) have "v = scale3 (1 / norm3 raw) raw"
      unfolding resolve_sign_prev[OF assms(1,2)] by auto
    with False u show ?thesis
      by simp
  qed
qed

lemma stepper_terminated: "pstatus p \<noteq> ACTIVE \<Longrightarrow> stepper E C p = Returns p"
  by (simp add: stepper_def)

lemma stepper_out_of_bounds:
  "pstatus p = ACTIVE \<Longrightarrow> sample_at E (position p) = None \<Longrightarrow>
   stepper E C p = Returns (p\<lparr>pstatus := TERMINATED OUT_OF_BOUNDS\<rparr>)"
  by (simp add: stepper_def)

lemma stepper_sampled:
  assumes "pstatus p = ACTIVE" "sample_at E (position p) = Some smp"
    "resolve_sign (epsilon E) (direction p)
       (fst (predict E (push (historyDepth C) smp (window p)))) = Returns res"
  shows "stepper E C p =
     Returns (after_resolution E C (p\<lparr>window := push (historyDepth C) smp (window p)\<rparr>)
        (snd (predict E (push (historyDepth C) smp (window p)))) res)"
  using assms
  by (cases res) (simp_all add: stepper_def after_resolution_def Let_def cong: option.case_cong)

lemma stepper_returns:
  assumes "0 \<le> epsilon E"
  shows "\<exists>p'. stepper E C p = Returns p'"
proof (cases "pstatus p = ACTIVE")
  case False
  then show ?thesis by (simp add: stepper_terminated)
next
  case True
  show ?thesis
  proof (cases "sample_at E (position p)")
    case None
    with True show ?thesis by (simp add: stepper_out_of_bounds)
  next
    case (Some smp)
    from resolve_sign_returns[OF assms] obtain res where
      "resolve_sign (epsilon E) (direction p)
         (fst (predict E (push (historyDepth C) smp (window p)))) = Returns res"
      by blast
    from stepper_sampled[OF True Some this] show ?thesis by blast
  qed
qed

text \<open>
  C3. Take an active particle whose position the interpolator can sample, and let
  \<open>raw\<close> be the predictor's output for its window; epsilon is not negative. The
  step never divides by a zero norm (it returns a particle). If the norm of \<open>raw\<close>
  is within epsilon of zero, then whether or not the particle has a previous direction
  the resolver reports no viable direction and the particle is terminated with cause
  \<open>DEGENERATE_DIRECTION\<close>, its position and path untouched. Otherwise the resolver
  normalises \<open>raw\<close> to \<open>u\<close>. With a previous direction \<open>d\<close> it takes the dot
  product of \<open>u\<close> with \<open>d\<close> and returns the negated raw output exactly when that
  product is negative; without one it returns \<open>raw\<close> as it is. A position that
  changes in this step changes by the step width along the resolved unit direction.
\<close>

theorem C3_sign_resolution:
  assumes eps: "0 \<le> epsilon E" and act: "pstatus p = ACTIVE"
    and smp: "sample_at E (position p) = Some smp"
    and raw: "raw = fst (predict E (push (historyDepth C) smp (window p)))"
  shows "\<exists>p'. stepper E C p = Returns p'
     \<and> (norm3 raw \<le> epsilon E \<longrightarrow>
          resolve_sign (epsilon E) (direction p) raw = Returns NoViableDirection
          \<and> pstatus p' = TERMINATED DEGENERATE_DIRECTION
          \<and> position p' = position p \<and> pathHistory p' = pathHistory p)
     \<and> (epsilon E < norm3 raw \<longrightarrow>
          (\<exists>u. normalize3 raw = Returns u
             \<and> (\<forall>d. direction p = Some d \<longrightarrow>
                   resolve_sign (epsilon E) (direction p) raw =
                     Returns (if dot3 u d < 0
                              then Resolved (scale3 (- 1) raw) (scale3 (- 1) u)
                              else Resolved raw u)
                   \<and> (position p' = position p
                       \<or> position p' = add3 (position p) (scale3 (stepWidth C)
                            (if dot3 u d < 0 then scale3 (- 1) u else u))))
             \<and> (direction p = None \<longrightarrow>
                   resolve_sign (epsilon E) (direction p) raw = Returns (Resolved raw u)
                   \<and> (position p' = position p
                       \<or> position p' = add3 (position p) (scale3 (stepWidth C) u)))))"
proof (cases "norm3 raw \<le> epsilon E")
  case True
  then have r: "resolve_sign (epsilon E) (direction p) raw = Returns NoViableDirection"
    by (rule resolve_sign_degenerate)
  from stepper_sampled[OF act smp r[unfolded raw]] True r show ?thesis
    by (simp add: after_resolution_def)
next
  case False
  then have gt: "epsilon E < norm3 raw" by simp
  with eps have n: "norm3 raw \<noteq> 0" by simp
  let ?u = "scale3 (1 / norm3 raw) raw"
  let ?p1 = "p\<lparr>window := push (historyDepth C) smp (window p)\<rparr>"
  let ?prob = "snd (predict E (push (historyDepth C) smp (window p)))"
  show ?thesis
  proof (cases "direction p")
    case None
    have r: "resolve_sign (epsilon E) (direction p) raw = Returns (Resolved raw ?u)"
      unfolding None by (rule resolve_sign_first[OF eps gt])
    have s: "stepper E C p = Returns (after_resolution E C ?p1 ?prob (Resolved raw ?u))"
      using stepper_sampled[OF act smp r[unfolded raw]] by (simp add: raw)
    show ?thesis
      using False None r normalize3_returns[OF n]
      by (auto simp: s after_resolution_def)
  next
    case (Some d)
    let ?res = "if dot3 ?u d < 0 then Resolved (scale3 (- 1) raw) (scale3 (- 1) ?u)
                else Resolved raw ?u"
    have r: "resolve_sign (epsilon E) (direction p) raw = Returns ?res"
      unfolding Some by (rule resolve_sign_prev[OF eps gt])
    have s: "stepper E C p = Returns (after_resolution E C ?p1 ?prob ?res)"
      using stepper_sampled[OF act smp r[unfolded raw]] by (simp add: raw)
    show ?thesis
      using False Some r normalize3_returns[OF n]
      by (auto simp: s after_resolution_def)
  qed
qed

theorem C3_sign_resolution_witness:
  "0 \<le> epsilon ex_engine
   \<and> pstatus (init_particle (2, 2, 2) (Some (- 1, 0, 0))) = ACTIVE
   \<and> sample_at ex_engine (position (init_particle (2, 2, 2) (Some (- 1, 0, 0)))) = Some [1]
   \<and> epsilon ex_engine < norm3 (1, 0, 0)
   \<and> resolve_sign (epsilon ex_engine) (Some (- 1, 0, 0)) (1, 0, 0)
        = Returns (Resolved (- 1, 0, 0) (- 1, 0, 0))
   \<and> (\<exists>p'. stepper ex_engine ex_config (init_particle (2, 2, 2) (Some (- 1, 0, 0)))
               = Returns p' \<and> position p' = (1, 2, 2))
   \<and> resolve_sign (epsilon ex_engine) None (1, 0, 0) = Returns (Resolved (1, 0, 0) (1, 0, 0))
   \<and> (\<exists>p'. stepper ex_engine ex_config (init_particle (2, 2, 2) None)
               = Returns p' \<and> position p' = (3, 2, 2))
   \<and> norm3 (0, 0, 0) \<le> epsilon ex_stalled
   \<and> (\<exists>p'. stepper ex_stalled ex_config (init_particle (2, 2, 2) (Some (1, 0, 0)))
               = Returns p' \<and> pstatus p' = TERMINATED DEGENERATE_DIRECTION
               \<and> position p' = (2, 2, 2) \<and> pathHistory p' = [])
   \<and> resolve_sign (epsilon ex_stalled) None (0, 0, 0) = Returns NoViableDirection
   \<and> (\<exists>p'. stepper ex_stalled ex_config (init_particle (2, 2, 2) None)
               = Returns p' \<and> pstatus p' = TERMINATED DEGENERATE_DIRECTION
               \<and> position p' = (2, 2, 2) \<and> pathHistory p' = [])"
proof -
  let ?p = "init_particle (2, 2, 2) (Some (- 1, 0, 0))"
  let ?q = "init_particle (2, 2, 2) (Some (1, 0, 0))"
  let ?f = "init_particle (2, 2, 2) None"
  have n: "norm3 (1, 0, 0) = 1" "norm3 (0, 0, 0) = 0"
    by (simp_all add: norm3_def)
  have e: "0 \<le> epsilon ex_engine" "0 \<le> epsilon ex_stalled"
    by (simp_all add: ex_engine_def ex_stalled_def)
  have a: "pstatus ?p = ACTIVE" "pstatus ?q = ACTIVE" "pstatus ?f = ACTIVE"
    by (simp_all add: init_particle_def)
  have s: "sample_at ex_engine (position ?p) = Some [1]"
    "sample_at ex_stalled (position ?q) = Some [1]"
    "sample_at ex_engine (position ?f) = Some [1]"
    "sample_at ex_stalled (position ?f) = Some [1]"
    by (simp_all add: init_particle_def ex_engine_def ex_stalled_def)
  have r: "(1, 0, 0) = fst (predict ex_engine (push (historyDepth ex_config) [1] (window ?p)))"
    "(0, 0, 0) = fst (predict ex_stalled (push (historyDepth ex_config) [1] (window ?q)))"
    "(1, 0, 0) = fst (predict ex_engine (push (historyDepth ex_config) [1] (window ?f)))"
    "(0, 0, 0) = fst (predict ex_stalled (push (historyDepth ex_config) [1] (window ?f)))"
    by (simp_all add: ex_engine_def ex_stalled_def)
  have d: "direction ?p = Some (- 1, 0, 0)" "direction ?q = Some (1, 0, 0)"
    "direction ?f = None"
    by (simp_all add: init_particle_def)
  have u: "normalize3 (1, 0, 0) = Returns (1, 0, 0)"
    by (simp add: normalize3_def n)
  have g: "epsilon ex_engine < norm3 (1, 0, 0)" "norm3 (0, 0, 0) \<le> epsilon ex_stalled"
    by (simp_all add: n ex_engine_def ex_stalled_def)
  from C3_sign_resolution[OF e(1) a(1) s(1) r(1)] g(1) u
  have 1: "resolve_sign (epsilon ex_engine) (Some (- 1, 0, 0)) (1, 0, 0)
        = Returns (Resolved (- 1, 0, 0) (- 1, 0, 0))"
    by (auto simp: d)
  have 2: "\<exists>p'. stepper ex_engine ex_config ?p = Returns p' \<and> position p' = (1, 2, 2)"
    by (simp add: stepper_def Let_def 1[unfolded ex_engine_def, simplified] ex_engine_def
        ex_config_def init_particle_def)
  from C3_sign_resolution[OF e(1) a(3) s(3) r(3)] g(1) u
  have 3: "resolve_sign (epsilon ex_engine) None (1, 0, 0)
        = Returns (Resolved (1, 0, 0) (1, 0, 0))"
    by (auto simp: d)
  have 4: "\<exists>p'. stepper ex_engine ex_config ?f = Returns p' \<and> position p' = (3, 2, 2)"
    by (simp add: stepper_def Let_def 3[unfolded ex_engine_def, simplified] ex_engine_def
        ex_config_def init_particle_def)
  from C3_sign_resolution[OF e(2) a(2) s(2) r(2)] g(2)
  have 5: "\<exists>p'. stepper ex_stalled ex_config ?q = Returns p'
             \<and> pstatus p' = TERMINATED DEGENERATE_DIRECTION
             \<and> position p' = (2, 2, 2) \<and> pathHistory p' = []"
    by (auto simp: init_particle_def)
  from C3_sign_resolution[OF e(2) a(3) s(4) r(4)] g(2)
  have 6: "resolve_sign (epsilon ex_stalled) None (0, 0, 0) = Returns NoViableDirection
         \<and> (\<exists>p'. stepper ex_stalled ex_config ?f = Returns p'
             \<and> pstatus p' = TERMINATED DEGENERATE_DIRECTION
             \<and> position p' = (2, 2, 2) \<and> pathHistory p' = [])"
    by (auto simp: init_particle_def)
  from e(1) a(1) s(1) g 1 2 3 4 5 6 show ?thesis
    by simp
qed

subsection \<open>Termination of the run\<close>

lemma map_outcome_list_all2:
  "map_outcome f xs = Returns ys \<longleftrightarrow> list_all2 (\<lambda>x y. f x = Returns y) xs ys"
proof (induction xs arbitrary: ys)
  case Nil
  then show ?case by auto
next
  case (Cons x xs)
  show ?case
  proof (cases "f x")
    case (Raises e)
    then show ?thesis by (auto simp: list_all2_Cons1)
  next
    case fx: (Returns y)
    show ?thesis
    proof (cases "map_outcome f xs")
      case (Raises e)
      with fx Cons.IH show ?thesis by (auto simp: list_all2_Cons1)
    next
      case (Returns zs)
      with fx Cons.IH show ?thesis by (auto simp: list_all2_Cons1)
    qed
  qed
qed

lemma map_outcome_total:
  assumes "\<And>x. \<exists>y. f x = Returns y"
  shows "\<exists>ys. map_outcome f xs = Returns ys"
proof (induction xs)
  case Nil
  then show ?case by simp
next
  case (Cons x xs)
  from assms obtain y where "f x = Returns y" by blast
  with Cons show ?case by auto
qed

text \<open>One step: a terminated particle stays as it is, the age grows by at most one.\<close>

lemma stepper_step:
  assumes "stepper E C p = Returns p'"
  shows "(is_active p' \<longrightarrow> is_active p \<and> age p' = Suc (age p) \<and> age p' < maxIterations C)
       \<and> age p \<le> age p' \<and> age p' \<le> Suc (age p)
       \<and> (\<not> is_active p \<longrightarrow> p' = p)
       \<and> (length (pathHistory p) = age p \<longrightarrow> length (pathHistory p') = age p')"
proof (cases "pstatus p = ACTIVE")
  case False
  with assms show ?thesis by (simp add: stepper_terminated is_active_def)
next
  case True
  show ?thesis
  proof (cases "sample_at E (position p)")
    case None
    with True assms show ?thesis by (auto simp: stepper_out_of_bounds is_active_def)
  next
    case (Some smp)
    let ?raw = "fst (predict E (push (historyDepth C) smp (window p)))"
    show ?thesis
    proof (cases "resolve_sign (epsilon E) (direction p) ?raw")
      case (Raises e)
      with True Some assms show ?thesis
        by (simp add: stepper_def Let_def)
    next
      case (Returns res)
      from stepper_sampled[OF True Some Returns] assms True show ?thesis
        by (cases res) (auto simp: after_resolution_def is_active_def split: if_splits)
    qed
  qed
qed

lemma active_count_mono:
  assumes "list_all2 (\<lambda>p p'. is_active p' \<longrightarrow> is_active p) ps ps'"
  shows "active_count ps' \<le> active_count ps"
  using assms by (induction rule: list_all2_induct) (auto simp: active_count_def)

lemma round_active_count:
  assumes "map_outcome (stepper E C) ps = Returns ps'"
  shows "active_count ps' \<le> active_count ps"
proof -
  from assms have "list_all2 (\<lambda>p p'. stepper E C p = Returns p') ps ps'"
    by (simp add: map_outcome_list_all2)
  then have "list_all2 (\<lambda>p p'. is_active p' \<longrightarrow> is_active p) ps ps'"
    by (rule list_all2_mono) (use stepper_step in blast)
  then show ?thesis by (rule active_count_mono)
qed

lemma run_rounds_returns:
  assumes "0 \<le> epsilon E"
  shows "\<exists>ps'. run_rounds E C n ps = Returns ps'"
proof (induction n arbitrary: ps)
  case 0
  then show ?case by simp
next
  case (Suc n)
  from map_outcome_total[of "stepper E C" ps] stepper_returns[OF assms]
  obtain qs where "map_outcome (stepper E C) ps = Returns qs" by blast
  with Suc[of qs] show ?case by simp
qed

lemma run_rounds_add:
  "run_rounds E C (m + n) ps = and_then (run_rounds E C m ps) (run_rounds E C n)"
proof (induction m arbitrary: ps)
  case 0
  then show ?case by simp
next
  case (Suc m)
  then show ?case
    by (cases "map_outcome (stepper E C) ps") simp_all
qed

lemma run_rounds_active_count:
  assumes "run_rounds E C n ps = Returns ps'"
  shows "active_count ps' \<le> active_count ps"
  using assms
proof (induction n arbitrary: ps)
  case 0
  then show ?case by simp
next
  case (Suc n)
  then obtain qs where q: "map_outcome (stepper E C) ps = Returns qs"
    "run_rounds E C n qs = Returns ps'"
    by (auto simp: and_then_Returns)
  from Suc.IH[OF q(2)] round_active_count[OF q(1)] show ?case by simp
qed

lemma stepper_round_inv:
  assumes "stepper E C p = Returns p'" "round_inv C k p"
  shows "round_inv C (Suc k) p' \<and> (is_active p' \<longrightarrow> Suc k < maxIterations C)"
  using stepper_step[OF assms(1)] assms(2) by (auto simp: round_inv_def)

lemma run_rounds_inv:
  assumes "run_rounds E C n ps = Returns ps'" "list_all (round_inv C k) ps"
  shows "list_all (round_inv C (k + n)) ps'
       \<and> (0 < n \<longrightarrow> list_all (\<lambda>p. is_active p \<longrightarrow> k + n < maxIterations C) ps')"
  using assms
proof (induction n arbitrary: ps k)
  case 0
  then show ?case by simp
next
  case (Suc n)
  then obtain qs where q: "map_outcome (stepper E C) ps = Returns qs"
    "run_rounds E C n qs = Returns ps'"
    by (auto simp: and_then_Returns)
  from q(1) have l: "list_all2 (\<lambda>p p'. stepper E C p = Returns p') ps qs"
    by (simp add: map_outcome_list_all2)
  have qi: "list_all (\<lambda>p. round_inv C (Suc k) p \<and> (is_active p \<longrightarrow> Suc k < maxIterations C)) qs"
    using l Suc.prems(2)
    by (induction rule: list_all2_induct) (auto simp: stepper_round_inv)
  then have qi1: "list_all (round_inv C (Suc k)) qs"
    by (simp add: list_all_iff)
  from Suc.IH[OF q(2) qi1] have a: "list_all (round_inv C (Suc k + n)) ps'"
    and b: "0 < n \<longrightarrow> list_all (\<lambda>p. is_active p \<longrightarrow> Suc k + n < maxIterations C) ps'"
    by auto
  show ?case
  proof (cases n)
    case 0
    with q(2) have "ps' = qs" by simp
    with qi 0 show ?thesis by (simp add: list_all_iff)
  next
    case (Suc m)
    with a b show ?thesis by simp
  qed
qed

lemma work_bound: "work E C n ps \<le> n * active_count ps"
proof (induction n arbitrary: ps)
  case 0
  then show ?case by simp
next
  case (Suc n)
  show ?case
  proof (cases "map_outcome (stepper E C) ps")
    case (Raises e)
    then show ?thesis by simp
  next
    case (Returns qs)
    have "work E C n qs \<le> n * active_count qs" by (rule Suc.IH)
    also have "\<dots> \<le> n * active_count ps"
      using round_active_count[OF Returns] by simp
    finally show ?thesis using Returns by simp
  qed
qed

lemma active_count_le_length: "active_count ps \<le> length ps"
  by (simp add: active_count_def)

lemma init_round_inv: "round_inv C 0 (init_particle sd d)"
  by (simp add: round_inv_def init_particle_def)

lemma reverse_particle_returns:
  assumes "0 \<le> epsilon E"
  shows "\<exists>p. reverse_particle E C sd = Returns p"
proof -
  from stepper_returns[OF assms] obtain p where "stepper E C (init_particle sd None) = Returns p"
    by blast
  then show ?thesis by (simp add: reverse_particle_def)
qed

lemma track_returns:
  assumes "0 \<le> epsilon E"
  shows "\<exists>sls. track E C seeds = Returns sls \<and> length sls \<le> length seeds"
proof -
  from run_rounds_returns[OF assms] obtain fwd where
    f: "run_rounds E C (maxIterations C) (map (\<lambda>sd. init_particle sd None) seeds) = Returns fwd"
    by blast
  from map_outcome_total[of "reverse_particle E C" seeds] reverse_particle_returns[OF assms]
  obtain starts where s: "map_outcome (reverse_particle E C) seeds = Returns starts"
    by blast
  from run_rounds_returns[OF assms] obtain bwd where
    b: "run_rounds E C (maxIterations C) starts = Returns bwd"
    by blast
  have "length (filter P (filter Q (map g (zip seeds (zip fwd bwd))))) \<le> length seeds" for P Q g
    by (rule order_trans[OF length_filter_le], rule order_trans[OF length_filter_le]) simp
  then show ?thesis
    by (simp add: track_def f s b filterStreamlinesByMaxLength_def filterStreamlinesByLength_def)
qed

lemma run_rounds_length:
  assumes "run_rounds E C n ps = Returns out"
  shows "length out = length ps"
  using assms
proof (induction n arbitrary: ps)
  case 0
  then show ?case by simp
next
  case (Suc n)
  then obtain qs where q: "map_outcome (stepper E C) ps = Returns qs"
    "run_rounds E C n qs = Returns out"
    by (auto simp: and_then_Returns)
  from q(1) have "length qs = length ps"
    by (auto simp: map_outcome_list_all2 dest: list_all2_lengthD)
  with Suc.IH[OF q(2)] show ?case by simp
qed

lemma active_count_zero: "list_all (\<lambda>p. \<not> is_active p) ps \<Longrightarrow> active_count ps = 0"
  by (simp add: active_count_def list_all_iff)

text \<open>
  C8. With a non-negative epsilon and a batch of fresh particles, the batch loop run
  for \<open>maxIterations\<close> rounds returns (no step faults); it returns one particle per
  particle of the batch, none of which made more than \<open>maxIterations\<close> steps (its
  path holds one point per step), and, if \<open>maxIterations\<close> is positive, none of
  which is still active. From one round to the next the number of active particles
  never grows. The stepper is invoked on an active particle at most
  \<open>maxIterations\<close> times the batch size. The whole run (both directions, assembly
  and filters) returns at most one streamline per seed.
\<close>

theorem C8_run_terminates:
  assumes "0 \<le> epsilon E"
    and "ps = map (\<lambda>(sd, d). init_particle sd d) starts"
  shows "(\<exists>out. run_rounds E C (maxIterations C) ps = Returns out
           \<and> length out = length ps
           \<and> list_all (\<lambda>p. age p \<le> maxIterations C \<and> length (pathHistory p) = age p) out
           \<and> (0 < maxIterations C \<longrightarrow> active_count out = 0))
       \<and> (\<forall>k a b. run_rounds E C k ps = Returns a \<longrightarrow> run_rounds E C (Suc k) ps = Returns b
             \<longrightarrow> active_count b \<le> active_count a)
       \<and> work E C (maxIterations C) ps \<le> maxIterations C * length ps
       \<and> (\<exists>sls. track E C seeds = Returns sls \<and> length sls \<le> length seeds)"
proof -
  from run_rounds_returns[OF assms(1)] obtain out where
    out: "run_rounds E C (maxIterations C) ps = Returns out"
    by blast
  have inv0: "list_all (round_inv C 0) ps"
    unfolding assms(2) by (auto simp: list_all_iff init_round_inv)
  from run_rounds_inv[OF out inv0]
  have inv: "list_all (round_inv C (maxIterations C)) out"
    and fin: "0 < maxIterations C \<longrightarrow> list_all (\<lambda>p. \<not> is_active p) out"
    by (auto simp: list_all_iff)
  from inv have ages: "list_all (\<lambda>p. age p \<le> maxIterations C \<and> length (pathHistory p) = age p) out"
    by (auto simp: list_all_iff round_inv_def)
  have 1: "\<exists>out. run_rounds E C (maxIterations C) ps = Returns out
           \<and> length out = length ps
           \<and> list_all (\<lambda>p. age p \<le> maxIterations C \<and> length (pathHistory p) = age p) out
           \<and> (0 < maxIterations C \<longrightarrow> active_count out = 0)"
    using out run_rounds_length[OF out] ages fin by (auto simp: active_count_zero)
  have 2: "active_count b \<le> active_count a"
    if a: "run_rounds E C k ps = Returns a" and b: "run_rounds E C (Suc k) ps = Returns b"
    for k a b
  proof -
    have "run_rounds E C (k + 1) ps = and_then (run_rounds E C k ps) (run_rounds E C 1)"
      by (rule run_rounds_add)
    with a b have "run_rounds E C 1 a = Returns b" by simp
    then show ?thesis by (rule run_rounds_active_count)
  qed
  have 3: "work E C (maxIterations C) ps \<le> maxIterations C * length ps"
    by (rule order_trans[OF work_bound]) (simp add: active_count_le_length)
  from 1 2 3 track_returns[OF assms(1)] show ?thesis by blast
qed

lemma ex_norm: "norm3 (1, 0, 0) = 1"
  by (simp add: norm3_def)

lemma ex_run:
  "run_rounds ex_engine ex_config 10 [init_particle (2, 2, 2) None] =
     Returns [\<lparr>position = (5, 2, 2), direction = Some (1, 0, 0),
               pathHistory = [(3, 2, 2), (4, 2, 2), (5, 2, 2)],
               pstatus = TERMINATED OUT_OF_BOUNDS, age = 3, window = [[1], [1], [1]]\<rparr>]"
  by (simp add: eval_nat_numeral stepper_def ex_engine_def ex_config_def init_particle_def
      resolve_sign_def normalize3_def ex_norm push_def Let_def)

theorem C8_run_terminates_witness:
  "0 \<le> epsilon ex_engine
   \<and> run_rounds ex_engine ex_config (maxIterations ex_config) [init_particle (2, 2, 2) None]
       = Returns [\<lparr>position = (5, 2, 2), direction = Some (1, 0, 0),
                   pathHistory = [(3, 2, 2), (4, 2, 2), (5, 2, 2)],
                   pstatus = TERMINATED OUT_OF_BOUNDS, age = 3, window = [[1], [1], [1]]\<rparr>]
   \<and> work ex_engine ex_config (maxIterations ex_config) [init_particle (2, 2, 2) None] \<le> 10
   \<and> (\<exists>sls. track ex_engine ex_config [(2, 2, 2)] = Returns sls \<and> length sls \<le> 1)"
proof -
  have e: "0 \<le> epsilon ex_engine"
    by (simp add: ex_engine_def)
  have p: "[init_particle (2, 2, 2) None]
             = map (\<lambda>(sd, d). init_particle sd d) [((2, 2, 2), None)]"
    by simp
  have m: "maxIterations ex_config = 10"
    by (simp add: ex_config_def)
  from C8_run_terminates[OF e p, of ex_config "[(2, 2, 2)]"] e ex_run show ?thesis
    by (simp add: m)
qed

end
